theory Spec2Isabelle
  imports Main
begin

section \<open>JavaScript values used by the machines\<close>

text \<open>
  A nullable string (\<open>string | null | undefined\<close>) is a \<open>string option\<close>; \<open>None\<close> stands
  for both \<open>null\<close> and \<open>undefined\<close>. \<open>Boolean v\<close> is JavaScript's truthiness of such a
  value: \<open>null\<close>, \<open>undefined\<close> and the empty string are falsy.
\<close>

definition Boolean :: "string option \<Rightarrow> bool" where
  "Boolean v = (case v of None \<Rightarrow> False | Some s \<Rightarrow> s \<noteq> [])"

text \<open>\<open>String.prototype.endsWith\<close>.\<close>

definition endsWith :: "string \<Rightarrow> string \<Rightarrow> bool" where
  "endsWith s t = (length t \<le> length s \<and> drop (length s - length t) s = t)"

text \<open>
  \<open>URLSearchParams\<close>: the list of key/value pairs of a query string, in order, duplicates
  kept. \<open>get\<close> returns the first value of a key or \<open>null\<close>; \<open>delete\<close> removes every pair
  of a key.
\<close>

type_synonym URLSearchParams = "(string \<times> string) list"

definition queries_get :: "URLSearchParams \<Rightarrow> string \<Rightarrow> string option" where
  "queries_get queries k = map_of queries k"

definition queries_delete :: "string \<Rightarrow> URLSearchParams \<Rightarrow> URLSearchParams" where
  "queries_delete k queries = filter (\<lambda>p. fst p \<noteq> k) queries"

text \<open>
  Errors: the module's own class \<open>NotFoundError\<close>, whose \<open>toString\<close> returns the bare
  message, and any other \<open>Error\<close> (name and message) with \<open>Error.prototype.toString\<close>.
\<close>

datatype js_error = NotFoundError string | JsError string string

fun toString :: "js_error \<Rightarrow> string" where
  "toString (NotFoundError message) = message"
| "toString (JsError name message) =
     (if name = [] then message else if message = [] then name else name @ '': '' @ message)"

fun instanceof_NotFoundError :: "js_error \<Rightarrow> bool" where
  "instanceof_NotFoundError (NotFoundError _) = True"
| "instanceof_NotFoundError (JsError _ _) = False"

section \<open>The source machine: data\<close>

datatype SourceProvider = registry | gist

text \<open>
  \<open>SourceFileFragment\<close> is a generated GraphQL type; the machine reads its \<open>id\<close>, \<open>text\<close>,
  \<open>updatedAt\<close> and \<open>owner?.id\<close>. Timestamps are natural numbers.
\<close>

record SourceFileFragment =
  file_id :: string
  file_text :: string
  file_updatedAt :: "nat option"
  file_owner_id :: "string option"

text \<open>The server-rendered record \<open>params.data\<close>: its \<open>id\<close> and \<open>text\<close> are read.\<close>

record ssr_data =
  data_id :: string
  data_text :: string

datatype actor = notifMachine

record source_context =
  sourceID :: "string option"
  sourceProvider :: "SourceProvider option"
  sourceRawContent :: "string option"
  sourceRegistryData :: "SourceFileFragment option"
  notifRef :: "actor option"
  loggedInUserId :: "string option"
  desiredMachineName :: "string option"

text \<open>
  The events of \<open>sourceModel\<close>, and the events the interpreter raises: \<open>xstate.init\<close> at
  the start and, for the invoked services, \<open>done.invoke\<close> with the resolved value and
  \<open>error.platform\<close> with the rejection.
\<close>

datatype event =
    xstate_init
  | EXAMPLE_REQUESTED
  | SAVE
  | FORK
  | CREATE_NEW
  | LOADED_FROM_GIST string
  | LOADED_FROM_REGISTRY "SourceFileFragment option"
  | CODE_UPDATED string "string option"
  | LOGGED_IN_USER_ID_UPDATED "string option"
  | CHOOSE_NAME string
  | CLOSE_NAME_CHOOSER_MODAL
  | MACHINE_ID_CHANGED string
  | done_invoke_createSourceFile "SourceFileFragment option"
  | error_platform_createSourceFile js_error
  | done_invoke_updateSourceFile SourceFileFragment
  | error_platform_updateSourceFile js_error
  | error_platform_loadSourceContent js_error

datatype notif_status = success | error

datatype notif_event = BROADCAST string notif_status

text \<open>
  The leaf states in which the machine rests. The transient nodes (those with only
  \<open>always\<close> transitions) and the compound nodes are the functions of the same names below.
\<close>

datatype state_value =
    redirecting
  | loading_content
  | user_owns_this_source
  | user_does_not_own_this_source
  | source_error
  | has_cached_source
  | no_cached_source
  | showingNameModal
  | pendingSave
  | updating

text \<open>Calls to the collaborators outside the machine, in the order they are made.\<close>

datatype effect =
    call_redirectToNewUrlFromLegacyUrl
  | call_routerReplace string
  | call_window_open string string string
  | call_removeSourceRawContent "string option"
  | send_to "actor option" notif_event
  | sendParent string
  | forwardTo string event

text \<open>
  Modelled from the spec: the Local Cache Adapter (\<open>./localCache\<close> is not among the
  sources). An entry is stored under a source ID (\<open>None\<close> is the key for no ID yet) and holds
  the raw content and the \<open>updatedAt\<close> known when it was written. It is valid only if no
  newer \<open>updatedAt\<close> is known from the server; an invalid entry is ignored.
\<close>

record cache_entry =
  entry_content :: string
  entry_updatedAt :: nat

type_synonym cache = "string option \<Rightarrow> cache_entry option"

definition getSourceRawContent :: "cache \<Rightarrow> string option \<Rightarrow> nat option \<Rightarrow> string option" where
  "getSourceRawContent c sid updatedAt =
     (case c sid of
        None \<Rightarrow> None
      | Some en \<Rightarrow>
          (case updatedAt of
             None \<Rightarrow> Some (entry_content en)
           | Some t \<Rightarrow> if entry_updatedAt en < t then None else Some (entry_content en)))"

definition removeSourceRawContent :: "cache \<Rightarrow> string option \<Rightarrow> cache" where
  "removeSourceRawContent c sid = c(sid := None)"

text \<open>
  A configuration: the state value and context of the machine, together with what the
  machine reads from its environment (\<open>params.auth.session()\<close>, the query string of
  \<open>window.location\<close> with \<open>None\<close> where \<open>window\<close> is undefined, the local cache) and the
  calls it has made.
\<close>

record config =
  state :: state_value
  ctx :: source_context
  session :: "string option"
  window :: "URLSearchParams option"
  localCache :: cache
  effects :: "effect list"

text \<open>The parameters of \<open>makeSourceMachine\<close> that are plain values.\<close>

record params =
  data :: "ssr_data option"
  isEmbedded :: bool

definition initialMachineCode :: string where
  "initialMachineCode = ''import { createMachine } from 'xstate';''"

definition exampleMachineCode :: string where
  "exampleMachineCode = ''import { createMachine, assign } from 'xstate';\<newline>\<newline>interface Context {\<newline>  retries: number;\<newline>}\<newline>\<newline>const fetchMachine = createMachine<Context>({\<newline>  id: 'fetch',\<newline>  initial: 'idle',\<newline>  context: {\<newline>    retries: 0\<newline>  },\<newline>  states: {\<newline>    idle: {\<newline>      on: {\<newline>        FETCH: 'loading'\<newline>      }\<newline>    },\<newline>    loading: {\<newline>      on: {\<newline>        RESOLVE: 'success',\<newline>        REJECT: 'failure'\<newline>      }\<newline>    },\<newline>    success: {\<newline>      type: 'final'\<newline>    },\<newline>    failure: {\<newline>      on: {\<newline>        RETRY: {\<newline>          target: 'loading',\<newline>          actions: assign({\<newline>            retries: (context, event) => context.retries + 1\<newline>          })\<newline>        }\<newline>      }\<newline>    }\<newline>  }\<newline>});''"

section \<open>The source machine: guards, actions and services\<close>

definition isLoggedIn :: "config \<Rightarrow> bool" where
  "isLoggedIn cfg = (session cfg \<noteq> None)"

text \<open>
  Modelled from the spec: \<open>isOnClientSide\<close> (\<open>./isOnClientSide\<close> is not among the sources)
  holds on the client side, where a browser window exists.
\<close>

definition isOnClientSide :: "config \<Rightarrow> bool" where
  "isOnClientSide cfg = (window cfg \<noteq> None)"

text \<open>
  Modelled from the spec: \<open>updateQueryParamsWithoutReload\<close> (\<open>./utils\<close> is not among the
  sources) applies the callback to the query parameters of the current URL and puts the
  result in place, without a page reload.
\<close>

definition updateQueryParamsWithoutReload ::
    "(URLSearchParams \<Rightarrow> URLSearchParams) \<Rightarrow> config \<Rightarrow> config" where
  "updateQueryParamsWithoutReload f cfg = cfg\<lparr>window := map_option f (window cfg)\<rparr>"

text \<open>
  \<open>getInvocations\<close>: the invocations as pairs of \<open>src\<close> and \<open>id\<close>. The \<open>else\<close> branch is the
  expression statement \<open>[]\<close>, which returns nothing: the result is \<open>undefined\<close>, here \<open>None\<close>.
\<close>

definition getInvocations :: "bool \<Rightarrow> (string \<times> string) list option" where
  "getInvocations embedded =
     (if \<not> embedded
      then Some [(''cacheCodeChangesMachine'', ''codeCacheMachine''),
                 (''confirmBeforeLeavingMachine'', ''confirmBeforeLeavingMachine'')]
      else None)"

definition call :: "effect \<Rightarrow> config \<Rightarrow> config" where
  "call eff cfg = cfg\<lparr>effects := effects cfg @ [eff]\<rparr>"

definition assign :: "(source_context \<Rightarrow> source_context) \<Rightarrow> config \<Rightarrow> config" where
  "assign f cfg = cfg\<lparr>ctx := f (ctx cfg)\<rparr>"

text \<open>With \<open>preserveActionOrder\<close>, the actions of a transition run in the order written.\<close>

definition run_actions :: "(event \<Rightarrow> config \<Rightarrow> config) list \<Rightarrow> event \<Rightarrow> config \<Rightarrow> config" where
  "run_actions acts e cfg = fold (\<lambda>a. a e) acts cfg"

definition send_BROADCAST :: "string \<Rightarrow> notif_status \<Rightarrow> event \<Rightarrow> config \<Rightarrow> config" where
  "send_BROADCAST message status e cfg =
     call (send_to (notifRef (ctx cfg)) (BROADCAST message status)) cfg"

definition sendParent_LOGGED_OUT :: "event \<Rightarrow> config \<Rightarrow> config" where
  "sendParent_LOGGED_OUT e cfg = call (sendParent ''LOGGED_OUT_USER_ATTEMPTED_RESTRICTED_ACTION'') cfg"

definition redirectToNewUrlFromLegacyUrl :: "event \<Rightarrow> config \<Rightarrow> config" where
  "redirectToNewUrlFromLegacyUrl e cfg = call call_redirectToNewUrlFromLegacyUrl cfg"

definition assignExampleMachineToContext :: "event \<Rightarrow> config \<Rightarrow> config" where
  "assignExampleMachineToContext e cfg =
     assign (\<lambda>c. c\<lparr>sourceRawContent := Some exampleMachineCode\<rparr>) cfg"

definition clearLocalStorageEntryForCurrentSource :: "event \<Rightarrow> config \<Rightarrow> config" where
  "clearLocalStorageEntryForCurrentSource e cfg =
     call (call_removeSourceRawContent (sourceID (ctx cfg)))
       (cfg\<lparr>localCache := removeSourceRawContent (localCache cfg) (sourceID (ctx cfg))\<rparr>)"

definition addForkOfToDesiredName :: "event \<Rightarrow> config \<Rightarrow> config" where
  "addForkOfToDesiredName e cfg =
     (case desiredMachineName (ctx cfg) of
        None \<Rightarrow> cfg
      | Some n \<Rightarrow>
          if n = [] \<or> endsWith n ''(forked)'' then cfg
          else assign (\<lambda>c. c\<lparr>desiredMachineName := Some (n @ '' (forked)'')\<rparr>) cfg)"

definition showSaveErrorToast :: "event \<Rightarrow> config \<Rightarrow> config" where
  "showSaveErrorToast = send_BROADCAST ''An error occurred when saving.'' error"

fun assignCreateSourceFileToContext :: "event \<Rightarrow> config \<Rightarrow> config" where
  "assignCreateSourceFileToContext (done_invoke_createSourceFile d) cfg =
     assign (\<lambda>c. c\<lparr>sourceID := map_option file_id d,
                     sourceProvider := Some registry,
                     sourceRegistryData := d\<rparr>) cfg"
| "assignCreateSourceFileToContext _ cfg = cfg"

text \<open>
  The template string \<open>`/${ctx.sourceID}`\<close>. The action runs only after
  \<open>assignCreateSourceFileToContext\<close>, where a missing ID is \<open>undefined\<close>.
\<close>

definition updateURLWithMachineID :: "event \<Rightarrow> config \<Rightarrow> config" where
  "updateURLWithMachineID e cfg =
     call (call_routerReplace
       (''/'' @ (case sourceID (ctx cfg) of None \<Rightarrow> ''undefined'' | Some s \<Rightarrow> s))) cfg"

definition getLocalStorageCachedSource :: "event \<Rightarrow> config \<Rightarrow> config" where
  "getLocalStorageCachedSource e cfg =
     (let result = getSourceRawContent (localCache cfg) (sourceID (ctx cfg))
            (case sourceRegistryData (ctx cfg) of None \<Rightarrow> None | Some d \<Rightarrow> file_updatedAt d)
      in if \<not> Boolean result then cfg
         else assign (\<lambda>c. c\<lparr>sourceRawContent := result\<rparr>) cfg)"

definition hasLocalStorageCachedSource :: "config \<Rightarrow> bool" where
  "hasLocalStorageCachedSource cfg =
     Boolean (getSourceRawContent (localCache cfg) (sourceID (ctx cfg))
       (case sourceRegistryData (ctx cfg) of None \<Rightarrow> None | Some d \<Rightarrow> file_updatedAt d))"

definition parseQueries :: "event \<Rightarrow> config \<Rightarrow> config" where
  "parseQueries e cfg =
     (case window cfg of
        None \<Rightarrow> cfg
      | Some queries \<Rightarrow>
          if Boolean (queries_get queries ''gist'')
          then assign (\<lambda>c. c\<lparr>sourceID := queries_get queries ''gist'',
                               sourceProvider := Some gist\<rparr>) cfg
          else if Boolean (queries_get queries ''id'')
          then assign (\<lambda>c. c\<lparr>sourceID := queries_get queries ''id'',
                               sourceProvider := Some registry\<rparr>) cfg
          else cfg)"

definition openNewWindowAtRoot :: "event \<Rightarrow> config \<Rightarrow> config" where
  "openNewWindowAtRoot e cfg = call (call_window_open ''/viz'' ''_blank'' ''noopener'') cfg"

text \<open>The inline actions of the machine configuration.\<close>

definition spawn_notifMachine :: "event \<Rightarrow> config \<Rightarrow> config" where
  "spawn_notifMachine e cfg = assign (\<lambda>c. c\<lparr>notifRef := Some notifMachine\<rparr>) cfg"

fun assign_loggedInUserId :: "event \<Rightarrow> config \<Rightarrow> config" where
  "assign_loggedInUserId (LOGGED_IN_USER_ID_UPDATED i) cfg =
     assign (\<lambda>c. c\<lparr>loggedInUserId := i\<rparr>) cfg"
| "assign_loggedInUserId _ cfg = cfg"

fun assign_desiredMachineName :: "event \<Rightarrow> config \<Rightarrow> config" where
  "assign_desiredMachineName (MACHINE_ID_CHANGED i) cfg =
     assign (\<lambda>c. c\<lparr>desiredMachineName := Some i\<rparr>) cfg"
| "assign_desiredMachineName (CHOOSE_NAME n) cfg =
     assign (\<lambda>c. c\<lparr>desiredMachineName := Some n\<rparr>) cfg"
| "assign_desiredMachineName _ cfg = cfg"

fun assign_loaded :: "event \<Rightarrow> config \<Rightarrow> config" where
  "assign_loaded (LOADED_FROM_REGISTRY d) cfg =
     assign (\<lambda>c. c\<lparr>sourceID := map_option file_id d,
                     sourceRawContent := map_option file_text d,
                     sourceRegistryData := d\<rparr>) cfg"
| "assign_loaded (LOADED_FROM_GIST rawSource) cfg =
     assign (\<lambda>c. c\<lparr>sourceRawContent := Some rawSource\<rparr>) cfg"
| "assign_loaded _ cfg = cfg"

fun assign_code :: "event \<Rightarrow> config \<Rightarrow> config" where
  "assign_code (CODE_UPDATED code sid) cfg = assign (\<lambda>c. c\<lparr>sourceRawContent := Some code\<rparr>) cfg"
| "assign_code _ cfg = cfg"

text \<open>
  \<open>choose\<close> with the single branch guarded by \<open>!params.isEmbedded\<close>: the event is forwarded
  to both invoked machines.
\<close>

definition forward_code_change :: "params \<Rightarrow> event \<Rightarrow> config \<Rightarrow> config" where
  "forward_code_change P e cfg =
     (if \<not> isEmbedded P
      then run_actions [\<lambda>e. call (forwardTo ''codeCacheMachine'' e),
                        \<lambda>e. call (forwardTo ''confirmBeforeLeavingMachine'' e)] e cfg
      else cfg)"

fun assign_updateSourceFile :: "event \<Rightarrow> config \<Rightarrow> config" where
  "assign_updateSourceFile (done_invoke_updateSourceFile d) cfg =
     assign (\<lambda>c. c\<lparr>sourceID := Some (file_id d),
                     sourceProvider := Some registry,
                     sourceRegistryData := Some d\<rparr>) cfg"
| "assign_updateSourceFile _ cfg = cfg"

text \<open>The two entry actions of \<open>source_error\<close>.\<close>

fun send_error_to_notifRef :: "event \<Rightarrow> config \<Rightarrow> config" where
  "send_error_to_notifRef (error_platform_loadSourceContent err) cfg =
     send_BROADCAST (toString err) error (error_platform_loadSourceContent err) cfg"
| "send_error_to_notifRef _ cfg = cfg"

fun delete_queries_if_not_found :: "event \<Rightarrow> config \<Rightarrow> config" where
  "delete_queries_if_not_found (error_platform_loadSourceContent err) cfg =
     (if instanceof_NotFoundError err
      then updateQueryParamsWithoutReload (\<lambda>queries. queries_delete ''gist'' (queries_delete ''id'' queries)) cfg
      else cfg)"
| "delete_queries_if_not_found _ cfg = cfg"

section \<open>The source machine: states and transitions\<close>

text \<open>
  Entering a node runs its entry actions and settles its \<open>always\<close> transitions; the guards
  of \<open>always\<close> transitions see the context the actions before them have left.
\<close>

definition userOwnsSource :: "source_context \<Rightarrow> bool" where
  "userOwnsSource c =
     (let ownerId = (case sourceRegistryData c of None \<Rightarrow> None | Some d \<Rightarrow> file_owner_id d)
      in if \<not> Boolean ownerId \<or> \<not> Boolean (loggedInUserId c) then False
         else ownerId = loggedInUserId c)"

definition checking_if_user_owns_source :: "config \<Rightarrow> config" where
  "checking_if_user_owns_source cfg =
     (if userOwnsSource (ctx cfg) then cfg\<lparr>state := user_owns_this_source\<rparr>
      else cfg\<lparr>state := user_does_not_own_this_source\<rparr>)"

text \<open>\<open>source_loaded\<close> entered from outside: to its initial state, or to a named child.\<close>

definition source_loaded :: "event \<Rightarrow> config \<Rightarrow> config" where
  "source_loaded e cfg = checking_if_user_owns_source (getLocalStorageCachedSource e cfg)"

definition source_loaded_at :: "state_value \<Rightarrow> event \<Rightarrow> config \<Rightarrow> config" where
  "source_loaded_at s e cfg = (getLocalStorageCachedSource e cfg)\<lparr>state := s\<rparr>"

definition with_source :: "config \<Rightarrow> config" where
  "with_source cfg = cfg\<lparr>state := loading_content\<rparr>"

definition enter_source_error :: "event \<Rightarrow> config \<Rightarrow> config" where
  "enter_source_error e cfg =
     (run_actions [send_error_to_notifRef, delete_queries_if_not_found] e cfg)\<lparr>state := source_error\<rparr>"

definition no_source :: "event \<Rightarrow> config \<Rightarrow> config" where
  "no_source e cfg =
     (if hasLocalStorageCachedSource cfg
      then (getLocalStorageCachedSource e cfg)\<lparr>state := has_cached_source\<rparr>
      else cfg\<lparr>state := no_cached_source\<rparr>)"

definition creating :: "config \<Rightarrow> config" where
  "creating cfg = cfg\<lparr>state := showingNameModal\<rparr>"

definition checking_url :: "event \<Rightarrow> config \<Rightarrow> config" where
  "checking_url e cfg =
     (let cfg' = parseQueries e cfg
      in if Boolean (sourceID (ctx cfg')) then with_source cfg' else no_source e cfg')"

definition checking_initial_data :: "event \<Rightarrow> config \<Rightarrow> config" where
  "checking_initial_data e cfg =
     (if Boolean (sourceID (ctx cfg)) then with_source cfg else checking_url e cfg)"

definition checking_if_on_legacy_url :: "params \<Rightarrow> event \<Rightarrow> config \<Rightarrow> config" where
  "checking_if_on_legacy_url P e cfg =
     (if (if \<not> isOnClientSide cfg then False
          else case window cfg of
                 None \<Rightarrow> False
               | Some queries \<Rightarrow> Boolean (queries_get queries ''id'') \<and> data P = None)
      then (redirectToNewUrlFromLegacyUrl e cfg)\<lparr>state := redirecting\<rparr>
      else checking_initial_data e cfg)"

definition initialContext :: source_context where
  "initialContext =
     \<lparr>sourceID = None, sourceProvider = None, sourceRawContent = None,
      sourceRegistryData = None, notifRef = None, loggedInUserId = None,
      desiredMachineName = None\<rparr>"

definition machine_context :: "params \<Rightarrow> source_context" where
  "machine_context P =
     initialContext
       \<lparr>sourceRawContent :=
          (case data P of None \<Rightarrow> None
           | Some d \<Rightarrow> if data_text d = [] then None else Some (data_text d)),
        sourceID :=
          (case data P of None \<Rightarrow> None
           | Some d \<Rightarrow> if data_id d = [] then None else Some (data_id d)),
        sourceProvider := (case data P of None \<Rightarrow> None | Some d \<Rightarrow> Some registry)\<rparr>"

text \<open>
  Starting the machine in an environment: the root entry action, then the initial state
  \<open>checking_if_on_legacy_url\<close>, which sets the first state value in every branch.
\<close>

definition start :: "params \<Rightarrow> string option \<Rightarrow> URLSearchParams option \<Rightarrow> cache \<Rightarrow> config" where
  "start P sess w c =
     checking_if_on_legacy_url P xstate_init
       (spawn_notifMachine xstate_init
          \<lparr>state = redirecting, ctx = machine_context P, session = sess, window = w,
           localCache = c, effects = []\<rparr>)"

text \<open>
  The \<open>on\<close> maps of the state nodes. A node answers \<open>None\<close> to an event it has no transition
  for; the first candidate whose guard holds is taken, and guards see the context before
  the actions of the transition.
\<close>

definition root_on :: "event \<Rightarrow> config \<Rightarrow> config option" where
  "root_on e cfg =
     (case e of
        LOGGED_IN_USER_ID_UPDATED _ \<Rightarrow> Some (assign_loggedInUserId e cfg)
      | MACHINE_ID_CHANGED _ \<Rightarrow> Some (assign_desiredMachineName e cfg)
      | _ \<Rightarrow> None)"

definition with_source_on :: "event \<Rightarrow> config \<Rightarrow> config option" where
  "with_source_on e cfg =
     (case e of
        CREATE_NEW \<Rightarrow> Some (openNewWindowAtRoot e cfg)
      | FORK \<Rightarrow>
          Some (if isLoggedIn cfg then creating (addForkOfToDesiredName e cfg)
                else sendParent_LOGGED_OUT e cfg)
      | _ \<Rightarrow> None)"

definition loading_content_on :: "event \<Rightarrow> config \<Rightarrow> config option" where
  "loading_content_on e cfg =
     (case e of
        LOADED_FROM_REGISTRY _ \<Rightarrow> Some (source_loaded e (assign_loaded e cfg))
      | LOADED_FROM_GIST _ \<Rightarrow>
          Some (source_loaded_at user_does_not_own_this_source e (assign_loaded e cfg))
      | error_platform_loadSourceContent _ \<Rightarrow> Some (enter_source_error e cfg)
      | _ \<Rightarrow> None)"

definition source_loaded_on :: "params \<Rightarrow> event \<Rightarrow> config \<Rightarrow> config option" where
  "source_loaded_on P e cfg =
     (case e of
        CODE_UPDATED _ _ \<Rightarrow> Some (run_actions [assign_code, forward_code_change P] e cfg)
      | LOGGED_IN_USER_ID_UPDATED _ \<Rightarrow>
          Some (checking_if_user_owns_source (assign_loggedInUserId e cfg))
      | _ \<Rightarrow> None)"

definition user_owns_this_source_on :: "event \<Rightarrow> config \<Rightarrow> config option" where
  "user_owns_this_source_on e cfg =
     (case e of
        SAVE \<Rightarrow>
          Some (if isLoggedIn cfg then cfg\<lparr>state := updating\<rparr>
                else sendParent_LOGGED_OUT e cfg)
      | _ \<Rightarrow> None)"

definition user_does_not_own_this_source_on :: "event \<Rightarrow> config \<Rightarrow> config option" where
  "user_does_not_own_this_source_on e cfg =
     (case e of
        SAVE \<Rightarrow>
          Some (if isLoggedIn cfg then creating (addForkOfToDesiredName e cfg)
                else sendParent_LOGGED_OUT e cfg)
      | _ \<Rightarrow> None)"

definition no_source_on :: "params \<Rightarrow> event \<Rightarrow> config \<Rightarrow> config option" where
  "no_source_on P e cfg =
     (case e of
        CODE_UPDATED _ _ \<Rightarrow> Some (run_actions [assign_code, forward_code_change P] e cfg)
      | SAVE \<Rightarrow> Some (if isLoggedIn cfg then creating cfg else sendParent_LOGGED_OUT e cfg)
      | _ \<Rightarrow> None)"

definition no_cached_source_on :: "event \<Rightarrow> config \<Rightarrow> config option" where
  "no_cached_source_on e cfg =
     (case e of
        EXAMPLE_REQUESTED \<Rightarrow> Some (assignExampleMachineToContext e cfg)
      | _ \<Rightarrow> None)"

definition showingNameModal_on :: "event \<Rightarrow> config \<Rightarrow> config option" where
  "showingNameModal_on e cfg =
     (case e of
        CHOOSE_NAME _ \<Rightarrow> Some ((assign_desiredMachineName e cfg)\<lparr>state := pendingSave\<rparr>)
      | CLOSE_NAME_CHOOSER_MODAL \<Rightarrow>
          Some (if Boolean (sourceID (ctx cfg)) then source_loaded e cfg else no_source e cfg)
      | _ \<Rightarrow> None)"

definition pendingSave_on :: "event \<Rightarrow> config \<Rightarrow> config option" where
  "pendingSave_on e cfg =
     (case e of
        done_invoke_createSourceFile _ \<Rightarrow>
          Some (source_loaded_at user_owns_this_source e
                  (run_actions
                     [clearLocalStorageEntryForCurrentSource,
                      assignCreateSourceFileToContext,
                      updateURLWithMachineID,
                      send_BROADCAST ''New file saved successfully!'' success] e cfg))
      | error_platform_createSourceFile _ \<Rightarrow>
          Some (if Boolean (sourceID (ctx cfg)) then source_loaded e (showSaveErrorToast e cfg)
                else no_source e (showSaveErrorToast e cfg))
      | _ \<Rightarrow> None)"

definition updating_on :: "event \<Rightarrow> config \<Rightarrow> config option" where
  "updating_on e cfg =
     (case e of
        done_invoke_updateSourceFile _ \<Rightarrow>
          Some (source_loaded_at user_owns_this_source e
                  (run_actions
                     [assign_updateSourceFile, send_BROADCAST ''Saved successfully'' success] e cfg))
      | error_platform_updateSourceFile _ \<Rightarrow>
          Some (source_loaded e
                  (send_BROADCAST ''An error occurred when saving.'' error e cfg))
      | _ \<Rightarrow> None)"

text \<open>
  An event is offered to the active leaf first and then to its ancestors up to the root;
  the deepest node with a transition for it wins, and an event no node handles leaves the
  configuration as it is.
\<close>

definition active_nodes :: "params \<Rightarrow> state_value \<Rightarrow> (event \<Rightarrow> config \<Rightarrow> config option) list" where
  "active_nodes P s =
     (case s of
        redirecting \<Rightarrow> [root_on]
      | loading_content \<Rightarrow> [loading_content_on, with_source_on, root_on]
      | user_owns_this_source \<Rightarrow>
          [user_owns_this_source_on, source_loaded_on P, with_source_on, root_on]
      | user_does_not_own_this_source \<Rightarrow>
          [user_does_not_own_this_source_on, source_loaded_on P, with_source_on, root_on]
      | source_error \<Rightarrow> [with_source_on, root_on]
      | has_cached_source \<Rightarrow> [no_source_on P, root_on]
      | no_cached_source \<Rightarrow> [no_cached_source_on, no_source_on P, root_on]
      | showingNameModal \<Rightarrow> [showingNameModal_on, root_on]
      | pendingSave \<Rightarrow> [pendingSave_on, root_on]
      | updating \<Rightarrow> [updating_on, root_on])"

fun first_handled :: "(event \<Rightarrow> config \<Rightarrow> config option) list \<Rightarrow> event \<Rightarrow> config \<Rightarrow> config" where
  "first_handled [] e cfg = cfg"
| "first_handled (h # hs) e cfg =
     (case h e cfg of Some cfg' \<Rightarrow> cfg' | None \<Rightarrow> first_handled hs e cfg)"

definition step :: "params \<Rightarrow> config \<Rightarrow> event \<Rightarrow> config" where
  "step P cfg e = first_handled (active_nodes P (state cfg)) e cfg"

definition run :: "params \<Rightarrow> config \<Rightarrow> event list \<Rightarrow> config" where
  "run P cfg es = foldl (step P) cfg es"

definition in_source_loaded :: "config \<Rightarrow> bool" where
  "in_source_loaded cfg =
     (state cfg = user_owns_this_source \<or> state cfg = user_does_not_own_this_source)"

definition in_no_source :: "config \<Rightarrow> bool" where
  "in_no_source cfg = (state cfg = has_cached_source \<or> state cfg = no_cached_source)"

definition in_with_source :: "config \<Rightarrow> bool" where
  "in_with_source cfg =
     (state cfg = loading_content \<or> in_source_loaded cfg \<or> state cfg = source_error)"

text \<open>The services invoked while a state is active, by the \<open>id\<close> given or the \<open>src\<close>.\<close>

definition invoked :: "params \<Rightarrow> state_value \<Rightarrow> string list" where
  "invoked P s =
     (let aux = (case getInvocations (isEmbedded P) of None \<Rightarrow> [] | Some l \<Rightarrow> map snd l)
      in case s of
           loading_content \<Rightarrow> [''loadSourceContent'']
         | user_owns_this_source \<Rightarrow> aux
         | user_does_not_own_this_source \<Rightarrow> aux
         | has_cached_source \<Rightarrow> aux
         | no_cached_source \<Rightarrow> aux
         | pendingSave \<Rightarrow> [''createSourceFile'']
         | updating \<Rightarrow> [''updateSourceFile'']
         | _ \<Rightarrow> [])"

subsection \<open>Loading the content\<close>

text \<open>
  What the gateways answer: a promise rejects with an error (name and message) or resolves.
  The gist gateway answers the first fetch with a status and, past the 404 check, the raw
  text of \<open>machine.js\<close> (reading the JSON and the second fetch can fail); the registry
  gateway answers \<open>gQuery(GetSourceFileDocument, ...)\<close> with \<open>data?.getSourceFile\<close>.
\<close>

datatype 'a promise = rejects string string | resolves 'a

record gateway =
  fetch_gist :: "string option \<Rightarrow> (nat \<times> string promise) promise"
  gQuery_GetSourceFile :: "string option \<Rightarrow> string option \<Rightarrow> SourceFileFragment option promise"

datatype outcome = sends event | throws js_error

definition loadSourceContent :: "gateway \<Rightarrow> config \<Rightarrow> outcome" where
  "loadSourceContent gw cfg =
     (case sourceProvider (ctx cfg) of
        Some gist \<Rightarrow>
          (case fetch_gist gw (sourceID (ctx cfg)) of
             rejects n m \<Rightarrow> throws (JsError n m)
           | resolves response \<Rightarrow>
               if fst response = 404 then throws (NotFoundError ''Gist not found'')
               else (case snd response of
                       rejects n m \<Rightarrow> throws (JsError n m)
                     | resolves rawSource \<Rightarrow> sends (LOADED_FROM_GIST rawSource)))
      | Some registry \<Rightarrow>
          (case gQuery_GetSourceFile gw (sourceID (ctx cfg)) (session cfg) of
             rejects n m \<Rightarrow> throws (JsError n m)
           | resolves result \<Rightarrow>
               (case result of
                  None \<Rightarrow> throws (NotFoundError ''Source not found in Registry'')
                | Some d \<Rightarrow> sends (LOADED_FROM_REGISTRY (Some d))))
      | None \<Rightarrow> throws (JsError ''Error'' ''It should be impossible to reach this.''))"

text \<open>
  The service runs while \<open>loading_content\<close> is active: what it sends reaches the machine
  as an event, and a rejection as \<open>error.platform\<close>, which \<open>onError\<close> handles. The
  services \<open>createSourceFile\<close> and \<open>updateSourceFile\<close> reach the machine through their
  \<open>done.invoke\<close> and \<open>error.platform\<close> events.
\<close>

definition load :: "params \<Rightarrow> gateway \<Rightarrow> config \<Rightarrow> config" where
  "load P gw cfg =
     (if state cfg = loading_content
      then (case loadSourceContent gw cfg of
              sends e \<Rightarrow> step P cfg e
            | throws err \<Rightarrow> step P cfg (error_platform_loadSourceContent err))
      else cfg)"

subsection \<open>Selectors\<close>

definition getEditorValue :: "config \<Rightarrow> string" where
  "getEditorValue cfg =
     (case sourceRawContent (ctx cfg) of
        None \<Rightarrow> initialMachineCode
      | Some s \<Rightarrow> if s = [] then initialMachineCode else s)"

definition getShouldImmediateUpdate :: "config \<Rightarrow> bool" where
  "getShouldImmediateUpdate cfg = Boolean (sourceRawContent (ctx cfg))"

section \<open>The drag machine\<close>

text \<open>
  Pointer coordinates (\<open>pageX\<close>, \<open>pageY\<close>) are whole pixels, modelled as integers.
\<close>

record Point =
  point_x :: int
  point_y :: int

record EmbedContext =
  embed_isEmbedded :: bool
  embed_pan :: bool

record drag_context =
  startPoint :: Point
  dragPoint :: Point
  dx :: int
  dy :: int
  embed :: "EmbedContext option"

datatype drag_event = LOCK | RELEASE | GRAB Point | DRAG Point | UNGRAB

datatype locked_state = idle | grabbed | dragging

datatype drag_state = in_embedded_mode | released | locked locked_state

text \<open>
  The state value and context of the drag machine, and the \<open>userSelect\<close> style of the
  canvas element, which the entry and exit actions of \<open>locked\<close> set.
\<close>

record drag_config =
  drag_value :: drag_state
  drag_ctx :: drag_context
  userSelect :: string

definition dragModel_initialContext :: drag_context where
  "dragModel_initialContext =
     \<lparr>startPoint = \<lparr>point_x = 0, point_y = 0\<rparr>, dragPoint = \<lparr>point_x = 0, point_y = 0\<rparr>,
      dx = 0, dy = 0, embed = None\<rparr>"

definition disableTextSelection :: "drag_config \<Rightarrow> drag_config" where
  "disableTextSelection cfg = cfg\<lparr>userSelect := ''none''\<rparr>"

definition enableTextSelection :: "drag_config \<Rightarrow> drag_config" where
  "enableTextSelection cfg = cfg\<lparr>userSelect := ''unset''\<rparr>"

definition checking_embedded_mode :: "drag_config \<Rightarrow> drag_config" where
  "checking_embedded_mode cfg =
     (if (case embed (drag_ctx cfg) of
            None \<Rightarrow> False
          | Some em \<Rightarrow> embed_isEmbedded em \<and> \<not> embed_pan em)
      then cfg\<lparr>drag_value := in_embedded_mode\<rparr>
      else cfg\<lparr>drag_value := released\<rparr>)"

definition drag_start :: "EmbedContext option \<Rightarrow> string \<Rightarrow> drag_config" where
  "drag_start em style =
     checking_embedded_mode
       \<lparr>drag_value = released, drag_ctx = dragModel_initialContext\<lparr>embed := em\<rparr>,
        userSelect = style\<rparr>"

text \<open>The assignment of \<open>idle\<close> on \<open>GRAB\<close>.\<close>

definition assign_grab :: "Point \<Rightarrow> drag_config \<Rightarrow> drag_config" where
  "assign_grab p cfg = cfg\<lparr>drag_ctx := (drag_ctx cfg)\<lparr>startPoint := p, dragPoint := p\<rparr>\<rparr>"

text \<open>
  The entry action of \<open>dragging\<close>: every property assigner reads the context as it was
  before the assignment, so \<open>dx\<close> and \<open>dy\<close> are taken against the old \<open>dragPoint\<close>.
\<close>

definition dragging_entry :: "Point \<Rightarrow> drag_config \<Rightarrow> drag_config" where
  "dragging_entry p cfg =
     cfg\<lparr>drag_value := locked dragging,
         drag_ctx := (drag_ctx cfg)
           \<lparr>dragPoint := p,
            dx := point_x (dragPoint (drag_ctx cfg)) - point_x p,
            dy := point_y (dragPoint (drag_ctx cfg)) - point_y p\<rparr>\<rparr>"

text \<open>The \<open>on\<close> maps of the children of \<open>locked\<close>, and of \<open>locked\<close> itself.\<close>

fun locked_child_on :: "locked_state \<Rightarrow> drag_event \<Rightarrow> drag_config \<Rightarrow> drag_config option" where
  "locked_child_on idle (GRAB p) cfg = Some ((assign_grab p cfg)\<lparr>drag_value := locked grabbed\<rparr>)"
| "locked_child_on grabbed (DRAG p) cfg = Some (dragging_entry p cfg)"
| "locked_child_on grabbed UNGRAB cfg = Some (cfg\<lparr>drag_value := locked idle\<rparr>)"
| "locked_child_on dragging (DRAG p) cfg = Some (dragging_entry p cfg)"
| "locked_child_on dragging UNGRAB cfg = Some (cfg\<lparr>drag_value := locked idle\<rparr>)"
| "locked_child_on _ _ cfg = None"

fun locked_on :: "drag_event \<Rightarrow> drag_config \<Rightarrow> drag_config option" where
  "locked_on RELEASE cfg = Some ((enableTextSelection cfg)\<lparr>drag_value := released\<rparr>)"
| "locked_on _ cfg = None"

fun released_on :: "drag_event \<Rightarrow> drag_config \<Rightarrow> drag_config option" where
  "released_on LOCK cfg = Some ((disableTextSelection cfg)\<lparr>drag_value := locked idle\<rparr>)"
| "released_on _ cfg = None"

definition drag_step :: "drag_config \<Rightarrow> drag_event \<Rightarrow> drag_config" where
  "drag_step cfg e =
     (case drag_value cfg of
        in_embedded_mode \<Rightarrow> cfg
      | released \<Rightarrow> (case released_on e cfg of Some cfg' \<Rightarrow> cfg' | None \<Rightarrow> cfg)
      | locked s \<Rightarrow>
          (case locked_child_on s e cfg of
             Some cfg' \<Rightarrow> cfg'
           | None \<Rightarrow> (case locked_on e cfg of Some cfg' \<Rightarrow> cfg' | None \<Rightarrow> cfg)))"

definition drag_run :: "drag_config \<Rightarrow> drag_event list \<Rightarrow> drag_config" where
  "drag_run cfg es = foldl drag_step cfg es"

text \<open>
  The effect of \<open>CanvasContainer\<close> that watches the state: while the tag \<open>dragging\<close> is on,
  it sends \<open>PAN(dx, dy)\<close> to the canvas service.
\<close>

definition reported_pan :: "drag_config \<Rightarrow> (int \<times> int) option" where
  "reported_pan cfg =
     (if drag_value cfg = locked dragging then Some (dx (drag_ctx cfg), dy (drag_ctx cfg))
      else None)"

subsection \<open>The keyboard listeners\<close>

text \<open>
  A keyboard event has a target element and a key code. \<open>isTextInputLikeElement\<close> comes
  from \<open>./utils\<close> and is a parameter here. A listener answers whether it called
  \<open>preventDefault\<close> and what it sent back to the machine.
\<close>

record 'el KeyboardEvent =
  target :: 'el
  code :: string

definition keydownListener :: "('el \<Rightarrow> bool) \<Rightarrow> 'el KeyboardEvent \<Rightarrow> bool \<times> drag_event option" where
  "keydownListener isTextInputLikeElement e =
     (if isTextInputLikeElement (target e) then (False, None)
      else if code e = ''Space'' then (True, Some LOCK)
      else (False, None))"

definition keyupListener :: "'el KeyboardEvent \<Rightarrow> bool \<times> drag_event option" where
  "keyupListener e = (if code e = ''Space'' then (True, Some RELEASE) else (False, None))"

text \<open>
  \<open>invokeDetectLock\<close> is invoked in \<open>released\<close> and \<open>invokeDetectRelease\<close> in \<open>locked\<close>: a
  listener is on the window only while its state is active.
\<close>

definition keydown :: "('el \<Rightarrow> bool) \<Rightarrow> drag_config \<Rightarrow> 'el KeyboardEvent \<Rightarrow> drag_config" where
  "keydown isTextInputLikeElement cfg e =
     (if drag_value cfg = released
      then (case snd (keydownListener isTextInputLikeElement e) of
              Some ev \<Rightarrow> drag_step cfg ev
            | None \<Rightarrow> cfg)
      else cfg)"

definition keyup :: "drag_config \<Rightarrow> 'el KeyboardEvent \<Rightarrow> drag_config" where
  "keyup cfg e =
     (case drag_value cfg of
        locked s \<Rightarrow> (case snd (keyupListener e) of Some ev \<Rightarrow> drag_step cfg ev | None \<Rightarrow> cfg)
      | _ \<Rightarrow> cfg)"

section \<open>Notions used in the statements\<close>

text \<open>The code payload of the last \<open>CODE_UPDATED\<close> event of a sequence, if it has one.\<close>

fun last_code :: "event list \<Rightarrow> string option" where
  "last_code [] = None"
| "last_code (e # es) =
     (case last_code es of
        Some c \<Rightarrow> Some c
      | None \<Rightarrow> (case e of CODE_UPDATED c _ \<Rightarrow> Some c | _ \<Rightarrow> None))"

text \<open>
  An edit, or a change of the logged-in identity, which sends \<open>source_loaded\<close> through
  \<open>checking_if_user_owns_source\<close> again.
\<close>

fun edit_or_identity :: "event \<Rightarrow> bool" where
  "edit_or_identity (CODE_UPDATED _ _) = True"
| "edit_or_identity (LOGGED_IN_USER_ID_UPDATED _) = True"
| "edit_or_identity _ = False"

fun is_forwardTo :: "effect \<Rightarrow> bool" where
  "is_forwardTo (forwardTo _ _) = True"
| "is_forwardTo _ = False"

subsection \<open>Example values\<close>

text \<open>The record \<open>abc123\<close> of the registry, owned by user \<open>u\<close>.\<close>

definition example_file :: SourceFileFragment where
  "example_file =
     \<lparr>file_id = ''abc123'', file_text = ''x'', file_updatedAt = None, file_owner_id = Some ''u''\<rparr>"

text \<open>A machine started without server-supplied data, and one started with it.\<close>

definition example_params :: params where
  "example_params = \<lparr>data = None, isEmbedded = False\<rparr>"

definition example_ssr_params :: params where
  "example_ssr_params =
     \<lparr>data = Some \<lparr>data_id = ''abc123'', data_text = ''x''\<rparr>, isEmbedded = False\<rparr>"

text \<open>The machine started on \<open>?id=abc123\<close>, on the client side, with no server-supplied data.\<close>

definition example_legacy_start :: config where
  "example_legacy_start = start example_params None (Some [(''id'', ''abc123'')]) (\<lambda>k. None)"

text \<open>
  The machine started with the server-supplied record, in \<open>loading_content\<close>, on a URL with
  the parameters \<open>id\<close>, \<open>theme\<close> and \<open>gist\<close>.
\<close>

definition example_loading :: config where
  "example_loading =
     \<lparr>state = loading_content,
      ctx = \<lparr>sourceID = Some ''abc123'', sourceProvider = Some registry,
             sourceRawContent = Some ''x'', sourceRegistryData = None,
             notifRef = Some notifMachine, loggedInUserId = None,
             desiredMachineName = None\<rparr>,
      session = None,
      window = Some [(''id'', ''abc123''), (''theme'', ''dark''), (''gist'', ''g1'')],
      localCache = (\<lambda>k. None), effects = []\<rparr>"

text \<open>Gateways that know no source: the gist API answers 404, the registry no record.\<close>

definition example_gateway :: gateway where
  "example_gateway =
     \<lparr>fetch_gist = (\<lambda>i. resolves (404, rejects ''Error'' ''no body'')),
      gQuery_GetSourceFile = (\<lambda>i t. resolves None)\<rparr>"

text \<open>
  The source \<open>abc123\<close> loaded from the registry, its machine named \<open>Foo\<close>: seen by a visitor
  who is not its owner, and by its owner \<open>u\<close>.
\<close>

definition example_visitor :: "string option \<Rightarrow> config" where
  "example_visitor sess =
     \<lparr>state = user_does_not_own_this_source,
      ctx = \<lparr>sourceID = Some ''abc123'', sourceProvider = Some registry,
             sourceRawContent = Some ''x'', sourceRegistryData = Some example_file,
             notifRef = Some notifMachine, loggedInUserId = None,
             desiredMachineName = Some ''Foo''\<rparr>,
      session = sess, window = Some [], localCache = (\<lambda>k. None), effects = []\<rparr>"

definition example_owner :: "string option \<Rightarrow> config" where
  "example_owner sess =
     \<lparr>state = user_owns_this_source,
      ctx = \<lparr>sourceID = Some ''abc123'', sourceProvider = Some registry,
             sourceRawContent = Some ''x'', sourceRegistryData = Some example_file,
             notifRef = Some notifMachine, loggedInUserId = Some ''u'',
             desiredMachineName = Some ''Foo''\<rparr>,
      session = sess, window = Some [], localCache = (\<lambda>k. None), effects = []\<rparr>"

definition example_edits :: "event list" where
  "example_edits =
     [CODE_UPDATED ''a'' (Some ''abc123''), LOGGED_IN_USER_ID_UPDATED (Some ''u''),
      CODE_UPDATED ''b'' (Some ''abc123'')]"

text \<open>
  A local cache with unsaved text under the key for no ID, and a logged-in user about to
  create a source from it: the machine is in \<open>creating.pendingSave\<close>.
\<close>

definition example_cache :: cache where
  "example_cache =
     (\<lambda>k. if k = None then Some \<lparr>entry_content = ''x'', entry_updatedAt = 1\<rparr> else None)"

definition example_unsaved :: config where
  "example_unsaved =
     \<lparr>state = pendingSave,
      ctx = \<lparr>sourceID = None, sourceProvider = None,
             sourceRawContent = Some ''x'', sourceRegistryData = None,
             notifRef = Some notifMachine, loggedInUserId = Some ''u'',
             desiredMachineName = Some ''Foo''\<rparr>,
      session = Some ''token'', window = Some [], localCache = example_cache, effects = []\<rparr>"

text \<open>A configuration whose URL has both a \<open>gist\<close> and an \<open>id\<close> parameter.\<close>

definition example_both :: "string \<Rightarrow> config" where
  "example_both g =
     \<lparr>state = redirecting, ctx = initialContext, session = None,
      window = Some [(''gist'', g), (''id'', ''abc123'')],
      localCache = (\<lambda>k. None), effects = []\<rparr>"

text \<open>The drag machine, not embedded, after \<open>LOCK\<close>.\<close>

definition example_locked :: drag_config where
  "example_locked = drag_step (drag_start None ''unset'') LOCK"

text \<open>Elements given by their tag name; inputs and text areas are text-input-like.\<close>

definition example_isTextInputLikeElement :: "string \<Rightarrow> bool" where
  "example_isTextInputLikeElement tagName = (tagName = ''INPUT'' \<or> tagName = ''TEXTAREA'')"

section \<open>Unfolding the machines\<close>

lemmas action_defs =
  call_def assign_def run_actions_def send_BROADCAST_def sendParent_LOGGED_OUT_def
  forward_code_change_def

lemmas node_defs =
  step_def active_nodes_def root_on_def with_source_on_def loading_content_on_def
  source_loaded_on_def user_owns_this_source_on_def user_does_not_own_this_source_on_def
  no_source_on_def no_cached_source_on_def showingNameModal_on_def pendingSave_on_def
  updating_on_def

lemmas entry_defs =
  source_loaded_def source_loaded_at_def checking_if_user_owns_source_def userOwnsSource_def
  enter_source_error_def creating_def

lemmas start_defs =
  start_def checking_if_on_legacy_url_def checking_initial_data_def checking_url_def
  parseQueries_def no_source_def with_source_def machine_context_def initialContext_def
  spawn_notifMachine_def redirectToNewUrlFromLegacyUrl_def isOnClientSide_def
  hasLocalStorageCachedSource_def getLocalStorageCachedSource_def getSourceRawContent_def
  Boolean_def queries_get_def

lemmas example_defs =
  example_file_def example_params_def example_ssr_params_def example_legacy_start_def
  example_loading_def example_gateway_def example_visitor_def example_owner_def
  example_edits_def example_cache_def example_unsaved_def example_both_def

section \<open>The example configurations are reached from the start\<close>

lemma example_loading_reached:
  "start example_ssr_params None
     (Some [(''id'', ''abc123''), (''theme'', ''dark''), (''gist'', ''g1'')]) (\<lambda>k. None)
   = example_loading"
  by (simp add: example_defs start_defs assign_def)

lemma example_visitor_reached:
  "run example_ssr_params (start example_ssr_params sess (Some []) (\<lambda>k. None))
     [MACHINE_ID_CHANGED ''Foo'', LOADED_FROM_REGISTRY (Some example_file)]
   = example_visitor sess"
  by (simp add: run_def example_defs start_defs node_defs entry_defs assign_def)

lemma example_owner_reached:
  "run example_ssr_params (start example_ssr_params sess (Some []) (\<lambda>k. None))
     [MACHINE_ID_CHANGED ''Foo'', LOGGED_IN_USER_ID_UPDATED (Some ''u''),
      LOADED_FROM_REGISTRY (Some example_file)]
   = example_owner sess"
  by (simp add: run_def example_defs start_defs node_defs entry_defs assign_def)

lemma example_unsaved_reached:
  "run example_params (start example_params (Some ''token'') (Some []) example_cache)
     [LOGGED_IN_USER_ID_UPDATED (Some ''u''), SAVE, CHOOSE_NAME ''Foo'']
   = example_unsaved"
  by (simp add: run_def example_defs start_defs node_defs entry_defs assign_def isLoggedIn_def)

section \<open>Edits in \<open>source_loaded\<close> and \<open>no_source\<close>\<close>

lemma step_code_updated:
  assumes "in_source_loaded cfg \<or> in_no_source cfg"
  shows "step P cfg (CODE_UPDATED c s) =
           cfg\<lparr>ctx := (ctx cfg)\<lparr>sourceRawContent := Some c\<rparr>,
               effects := effects cfg @
                 (if isEmbedded P then []
                  else [forwardTo ''codeCacheMachine'' (CODE_UPDATED c s),
                        forwardTo ''confirmBeforeLeavingMachine'' (CODE_UPDATED c s)])\<rparr>"
  using assms
  by (auto simp: in_source_loaded_def in_no_source_def node_defs action_defs)

lemma step_identity_source_loaded:
  assumes "in_source_loaded cfg"
  shows "step P cfg (LOGGED_IN_USER_ID_UPDATED i) =
           checking_if_user_owns_source (cfg\<lparr>ctx := (ctx cfg)\<lparr>loggedInUserId := i\<rparr>\<rparr>)"
  using assms
  by (auto simp: in_source_loaded_def node_defs action_defs)

lemma step_identity_no_source:
  assumes "in_no_source cfg"
  shows "step P cfg (LOGGED_IN_USER_ID_UPDATED i) = cfg\<lparr>ctx := (ctx cfg)\<lparr>loggedInUserId := i\<rparr>\<rparr>"
  using assms
  by (auto simp: in_no_source_def node_defs action_defs)

lemma checking_if_user_owns_source_frame:
  "in_source_loaded (checking_if_user_owns_source cfg)"
  "ctx (checking_if_user_owns_source cfg) = ctx cfg"
  "effects (checking_if_user_owns_source cfg) = effects cfg"
  by (simp_all add: checking_if_user_owns_source_def in_source_loaded_def)

lemma step_edit_or_identity:
  assumes "in_source_loaded cfg \<or> in_no_source cfg" and "edit_or_identity e"
  shows "(in_source_loaded (step P cfg e) \<or> in_no_source (step P cfg e))
       \<and> (in_source_loaded cfg \<longrightarrow> in_source_loaded (step P cfg e))
       \<and> (in_no_source cfg \<longrightarrow> in_no_source (step P cfg e))
       \<and> sourceRawContent (ctx (step P cfg e)) =
           (case e of CODE_UPDATED c _ \<Rightarrow> Some c | _ \<Rightarrow> sourceRawContent (ctx cfg))"
proof (cases e)
  case (CODE_UPDATED c s)
  with assms(1) show ?thesis
    by (auto simp: step_code_updated in_source_loaded_def in_no_source_def)
next
  case (LOGGED_IN_USER_ID_UPDATED i)
  show ?thesis
  proof (cases "in_source_loaded cfg")
    case True
    then have "\<not> in_no_source cfg" by (auto simp: in_source_loaded_def in_no_source_def)
    with True LOGGED_IN_USER_ID_UPDATED show ?thesis
      by (simp add: step_identity_source_loaded checking_if_user_owns_source_frame)
  next
    case False
    with assms(1) have ns: "in_no_source cfg" by simp
    with False LOGGED_IN_USER_ID_UPDATED show ?thesis
      by (simp add: step_identity_no_source in_no_source_def in_source_loaded_def)
  qed
qed (use assms(2) in simp_all)

lemma run_edit_or_identity:
  assumes "in_source_loaded cfg \<or> in_no_source cfg" and "list_all edit_or_identity es"
  shows "sourceRawContent (ctx (run P cfg es)) =
           (case last_code es of Some c \<Rightarrow> Some c | None \<Rightarrow> sourceRawContent (ctx cfg))
       \<and> (in_source_loaded cfg \<longrightarrow> in_source_loaded (run P cfg es))
       \<and> (in_no_source cfg \<longrightarrow> in_no_source (run P cfg es))"
  using assms
proof (induction es arbitrary: cfg)
  case Nil
  then show ?case by (simp add: run_def)
next
  case (Cons e es)
  from Cons.prems have e: "edit_or_identity e" and es: "list_all edit_or_identity es"
    by simp_all
  note st = step_edit_or_identity [OF Cons.prems(1) e, of P]
  from st have reg: "in_source_loaded (step P cfg e) \<or> in_no_source (step P cfg e)" by blast
  have run: "run P cfg (e # es) = run P (step P cfg e) es" by (simp add: run_def)
  from Cons.IH [OF reg es] st show ?case
    unfolding run by (auto split: option.splits event.splits)
qed

section \<open>What the actions leave alone\<close>

lemma getLocalStorageCachedSource_effects:
  "effects (getLocalStorageCachedSource e cfg) = effects cfg"
  by (simp add: getLocalStorageCachedSource_def Let_def assign_def)

lemma addForkOfToDesiredName_effects:
  "effects (addForkOfToDesiredName e cfg) = effects cfg"
  by (simp add: addForkOfToDesiredName_def assign_def split: option.splits)

lemma no_source_effects: "effects (no_source e cfg) = effects cfg"
  by (simp add: no_source_def getLocalStorageCachedSource_effects)

lemma source_loaded_effects:
  "effects (source_loaded e cfg) = effects cfg"
  "effects (source_loaded_at s e cfg) = effects cfg"
  by (simp_all add: source_loaded_def source_loaded_at_def checking_if_user_owns_source_def
      getLocalStorageCachedSource_effects)

lemma source_loaded_at_frame:
  "state (source_loaded_at s e cfg) = s"
  "localCache (source_loaded_at s e cfg) = localCache cfg"
  "window (source_loaded_at s e cfg) = window cfg"
  "sourceID (ctx (source_loaded_at s e cfg)) = sourceID (ctx cfg)"
  "sourceProvider (ctx (source_loaded_at s e cfg)) = sourceProvider (ctx cfg)"
  "sourceRegistryData (ctx (source_loaded_at s e cfg)) = sourceRegistryData (ctx cfg)"
  by (simp_all add: source_loaded_at_def getLocalStorageCachedSource_def Let_def assign_def)

lemma embedded_never_forwards:
  assumes "isEmbedded P"
  shows "filter is_forwardTo (effects (step P cfg e)) = filter is_forwardTo (effects cfg)"
  using assms
  by (cases "state cfg"; cases e;
      simp add: node_defs action_defs source_loaded_effects no_source_effects
        addForkOfToDesiredName_effects creating_def enter_source_error_def
        checking_if_user_owns_source_def openNewWindowAtRoot_def
        assignExampleMachineToContext_def showSaveErrorToast_def
        clearLocalStorageEntryForCurrentSource_def updateURLWithMachineID_def
        updateQueryParamsWithoutReload_def)

lemma code_updated_elsewhere:
  assumes "\<not> (in_source_loaded cfg \<or> in_no_source cfg)"
  shows "step P cfg (CODE_UPDATED c s) = cfg"
  using assms
  by (cases "state cfg") (simp_all add: in_source_loaded_def in_no_source_def node_defs)

section \<open>The fork suffix\<close>

lemma endsWith_forked: "endsWith (n @ '' (forked)'') ''(forked)''"
  by (simp add: endsWith_def)

lemma addForkOfToDesiredName_name:
  "desiredMachineName (ctx (addForkOfToDesiredName e cfg)) =
     (case desiredMachineName (ctx cfg) of
        None \<Rightarrow> None
      | Some n \<Rightarrow> if n = [] \<or> endsWith n ''(forked)'' then Some n else Some (n @ '' (forked)''))"
  by (simp add: addForkOfToDesiredName_def assign_def split: option.splits)

lemma addForkOfToDesiredName_idem:
  "addForkOfToDesiredName e' (addForkOfToDesiredName e cfg) = addForkOfToDesiredName e cfg"
proof (cases "desiredMachineName (ctx cfg)")
  case None
  then show ?thesis by (simp add: addForkOfToDesiredName_def)
next
  case (Some n)
  show ?thesis
  proof (cases "n = [] \<or> endsWith n ''(forked)''")
    case True
    with Some show ?thesis by (simp add: addForkOfToDesiredName_def)
  next
    case False
    with Some have "addForkOfToDesiredName e cfg =
        cfg\<lparr>ctx := (ctx cfg)\<lparr>desiredMachineName := Some (n @ '' (forked)'')\<rparr>\<rparr>"
      by (simp add: addForkOfToDesiredName_def assign_def)
    then show ?thesis
      using endsWith_forked [of n] by (simp add: addForkOfToDesiredName_def)
  qed
qed

section \<open>Query parameters\<close>

lemma queries_get_delete:
  "queries_get (queries_delete k q) k' = (if k' = k then None else queries_get q k')"
  by (induction q) (auto simp: queries_get_def queries_delete_def)

section \<open>Failed loads\<close>

lemma step_load_error:
  assumes "state cfg = loading_content"
  shows "step P cfg (error_platform_loadSourceContent err) =
           cfg\<lparr>state := source_error,
               window :=
                 (if instanceof_NotFoundError err
                  then map_option (\<lambda>queries. queries_delete ''gist'' (queries_delete ''id'' queries))
                         (window cfg)
                  else window cfg),
               effects := effects cfg @
                 [send_to (notifRef (ctx cfg)) (BROADCAST (toString err) error)]\<rparr>"
  using assms
  by (simp add: node_defs enter_source_error_def action_defs updateQueryParamsWithoutReload_def)

section \<open>The legacy URL\<close>

lemma step_redirecting:
  assumes "state cfg = redirecting"
  shows "state (step P cfg e) = redirecting
       \<and> effects (step P cfg e) = effects cfg
       \<and> sourceID (ctx (step P cfg e)) = sourceID (ctx cfg)
       \<and> sourceProvider (ctx (step P cfg e)) = sourceProvider (ctx cfg)"
  using assms by (cases e) (simp_all add: node_defs assign_def)

lemma run_redirecting:
  assumes "state cfg = redirecting"
  shows "state (run P cfg es) = redirecting
       \<and> effects (run P cfg es) = effects cfg
       \<and> sourceID (ctx (run P cfg es)) = sourceID (ctx cfg)
       \<and> sourceProvider (ctx (run P cfg es)) = sourceProvider (ctx cfg)"
  using assms
proof (induction es arbitrary: cfg)
  case Nil
  then show ?case by (simp add: run_def)
next
  case (Cons e es)
  have r: "run P cfg (e # es) = run P (step P cfg e) es" by (simp add: run_def)
  from step_redirecting [OF Cons.prems, of P e] Cons.IH [of "step P cfg e"]
  show ?case unfolding r by simp
qed

lemma start_legacy:
  assumes "queries_get queries ''id'' = Some i" and "i \<noteq> []" and "data P = None"
  shows "state (start P sess (Some queries) c) = redirecting
       \<and> effects (start P sess (Some queries) c) = [call_redirectToNewUrlFromLegacyUrl]
       \<and> sourceID (ctx (start P sess (Some queries) c)) = None
       \<and> sourceProvider (ctx (start P sess (Some queries) c)) = None"
  using assms
  by (simp add: start_def checking_if_on_legacy_url_def isOnClientSide_def Boolean_def
      spawn_notifMachine_def redirectToNewUrlFromLegacyUrl_def assign_def call_def
      machine_context_def initialContext_def)

lemma start_with_data:
  assumes "data P = Some d" and "data_id d = i" and "i \<noteq> []"
  shows "state (start P sess w c) = loading_content
       \<and> effects (start P sess w c) = []
       \<and> sourceID (ctx (start P sess w c)) = Some i
       \<and> sourceProvider (ctx (start P sess w c)) = Some registry"
  using assms
  by (simp add: start_def checking_if_on_legacy_url_def isOnClientSide_def Boolean_def
      spawn_notifMachine_def assign_def checking_initial_data_def with_source_def
      machine_context_def initialContext_def split: option.splits)

section \<open>The claims about the source machine\<close>

text \<open>
  C1. For every sequence of \<open>CODE_UPDATED\<close> events delivered while the machine is in
  \<open>source_loaded\<close> or in \<open>no_source\<close>, with changes of the logged-in identity interleaved
  (each sends \<open>source_loaded\<close> through \<open>checking_if_user_owns_source\<close> to
  \<open>user_owns_this_source\<close> or \<open>user_does_not_own_this_source\<close> again), \<open>sourceRawContent\<close>
  after the sequence is the code of the last \<open>CODE_UPDATED\<close> event, and the machine is
  still in the region it was in.
\<close>

theorem last_edit_wins:
  assumes "in_source_loaded cfg \<or> in_no_source cfg"
    and "list_all edit_or_identity es"
    and "last_code es = Some c"
  shows "sourceRawContent (ctx (run P cfg es)) = Some c
       \<and> (in_source_loaded cfg \<longrightarrow> in_source_loaded (run P cfg es))
       \<and> (in_no_source cfg \<longrightarrow> in_no_source (run P cfg es))"
  using run_edit_or_identity [OF assms(1,2), of P] assms(3) by simp

theorem last_edit_wins_witness:
  "in_source_loaded (example_visitor None)
   \<and> list_all edit_or_identity example_edits
   \<and> last_code example_edits = Some ''b''
   \<and> sourceRawContent
        (ctx (run example_ssr_params (example_visitor None)
                example_edits)) = Some ''b''
   \<and> state (run example_ssr_params (example_visitor None)
               example_edits) = user_owns_this_source"
  using last_edit_wins [where cfg = "example_visitor None"
      and es = example_edits and c = "''b''" and P = example_ssr_params]
  by (simp add: in_source_loaded_def run_def node_defs entry_defs action_defs Boolean_def
      example_defs)

text \<open>
  C2. \<open>addForkOfToDesiredName\<close> maps the desired name \<open>Foo\<close> to \<open>Foo (forked)\<close>, and any
  non-empty name not ending in \<open>(forked)\<close> to the name with \<open> (forked)\<close> appended; it is
  idempotent; a null or empty name and a name already ending in \<open>(forked)\<close> are left
  unchanged. It is the action of \<open>SAVE\<close> in \<open>user_does_not_own_this_source\<close> and of \<open>FORK\<close> in
  \<open>with_source\<close> for a logged-in user, and both go to \<open>creating\<close>.
\<close>

theorem fork_name_idempotent:
  "(desiredMachineName (ctx cfg) = Some ''Foo'' \<longrightarrow>
      desiredMachineName (ctx (addForkOfToDesiredName e cfg)) = Some ''Foo (forked)'')
   \<and> (\<forall>n. desiredMachineName (ctx cfg) = Some n \<and> n \<noteq> [] \<and> \<not> endsWith n ''(forked)'' \<longrightarrow>
          desiredMachineName (ctx (addForkOfToDesiredName e cfg)) = Some (n @ '' (forked)''))
   \<and> addForkOfToDesiredName e' (addForkOfToDesiredName e cfg) = addForkOfToDesiredName e cfg
   \<and> (desiredMachineName (ctx cfg) = None \<or> desiredMachineName (ctx cfg) = Some []
        \<or> (\<exists>n. desiredMachineName (ctx cfg) = Some n \<and> endsWith n ''(forked)'') \<longrightarrow>
      addForkOfToDesiredName e cfg = cfg)
   \<and> (state cfg = user_does_not_own_this_source \<and> isLoggedIn cfg \<longrightarrow>
      step P cfg SAVE = (addForkOfToDesiredName SAVE cfg)\<lparr>state := showingNameModal\<rparr>)
   \<and> (in_with_source cfg \<and> isLoggedIn cfg \<longrightarrow>
      step P cfg FORK = (addForkOfToDesiredName FORK cfg)\<lparr>state := showingNameModal\<rparr>)"
proof -
  have foo: "\<not> endsWith ''Foo'' ''(forked)''" by (simp add: endsWith_def)
  have a: "desiredMachineName (ctx cfg) = Some ''Foo'' \<longrightarrow>
      desiredMachineName (ctx (addForkOfToDesiredName e cfg)) = Some ''Foo (forked)''"
    using foo by (simp add: addForkOfToDesiredName_name)
  have b: "\<forall>n. desiredMachineName (ctx cfg) = Some n \<and> n \<noteq> [] \<and> \<not> endsWith n ''(forked)'' \<longrightarrow>
          desiredMachineName (ctx (addForkOfToDesiredName e cfg)) = Some (n @ '' (forked)'')"
    by (simp add: addForkOfToDesiredName_name)
  have c: "desiredMachineName (ctx cfg) = None \<or> desiredMachineName (ctx cfg) = Some []
        \<or> (\<exists>n. desiredMachineName (ctx cfg) = Some n \<and> endsWith n ''(forked)'') \<longrightarrow>
      addForkOfToDesiredName e cfg = cfg"
    by (auto simp: addForkOfToDesiredName_def)
  have d: "state cfg = user_does_not_own_this_source \<and> isLoggedIn cfg \<longrightarrow>
      step P cfg SAVE = (addForkOfToDesiredName SAVE cfg)\<lparr>state := showingNameModal\<rparr>"
    by (simp add: node_defs creating_def)
  have f: "in_with_source cfg \<and> isLoggedIn cfg \<longrightarrow>
      step P cfg FORK = (addForkOfToDesiredName FORK cfg)\<lparr>state := showingNameModal\<rparr>"
    by (auto simp: in_with_source_def in_source_loaded_def node_defs creating_def)
  from a b c d f addForkOfToDesiredName_idem show ?thesis by blast
qed

text \<open>
  A logged-in user who does not own \<open>abc123\<close>, named \<open>Foo\<close>, saves, closes the name chooser
  and saves again: the name is \<open>Foo (forked)\<close> after the first save and after the second.
\<close>

theorem fork_name_idempotent_witness:
  "desiredMachineName (ctx (example_visitor (Some ''token'')))
       = Some ''Foo''
   \<and> state (example_visitor (Some ''token''))
       = user_does_not_own_this_source
   \<and> isLoggedIn (example_visitor (Some ''token''))
   \<and> state (step example_ssr_params (example_visitor (Some ''token'')) SAVE)
       = showingNameModal
   \<and> desiredMachineName
       (ctx (step example_ssr_params (example_visitor (Some ''token'')) SAVE))
       = Some ''Foo (forked)''
   \<and> desiredMachineName
       (ctx (run example_ssr_params (example_visitor (Some ''token''))
          [SAVE, CLOSE_NAME_CHOOSER_MODAL, SAVE]))
       = Some ''Foo (forked)''"
proof -
  let ?c = "example_visitor (Some ''token'')"
  have h: "desiredMachineName (ctx ?c) = Some ''Foo''"
      "state ?c = user_does_not_own_this_source" "isLoggedIn ?c"
    by (simp_all add: example_defs isLoggedIn_def)
  have r: "run example_ssr_params ?c [SAVE, CLOSE_NAME_CHOOSER_MODAL, SAVE]
      = step example_ssr_params
          (step example_ssr_params (step example_ssr_params ?c SAVE) CLOSE_NAME_CHOOSER_MODAL) SAVE"
    by (simp add: run_def)
  from fork_name_idempotent [where cfg = ?c and e = SAVE and e' = SAVE and P = example_ssr_params] h
  have s: "step example_ssr_params ?c SAVE = (addForkOfToDesiredName SAVE ?c)\<lparr>state := showingNameModal\<rparr>"
    and n: "desiredMachineName (ctx (addForkOfToDesiredName SAVE ?c)) = Some ''Foo (forked)''"
    by blast+
  let ?d = "(addForkOfToDesiredName SAVE ?c)\<lparr>state := user_does_not_own_this_source\<rparr>"
  have closed: "step example_ssr_params ((addForkOfToDesiredName SAVE ?c)\<lparr>state := showingNameModal\<rparr>)
       CLOSE_NAME_CHOOSER_MODAL = ?d"
    by (simp add: node_defs entry_defs start_defs addForkOfToDesiredName_def endsWith_def
        assign_def example_defs)
  have again: "step example_ssr_params ?d SAVE = (addForkOfToDesiredName SAVE ?d)\<lparr>state := showingNameModal\<rparr>"
    using fork_name_idempotent [where cfg = ?d and e = SAVE and e' = SAVE and P = example_ssr_params] h
    by (simp add: isLoggedIn_def addForkOfToDesiredName_def endsWith_def assign_def example_defs)
  have same: "addForkOfToDesiredName SAVE ?d = ?d"
    by (simp add: addForkOfToDesiredName_def endsWith_def assign_def example_defs)
  show ?thesis
    using h s n by (simp add: r closed again same)
qed

text \<open>
  C3. In \<open>loading_content\<close>, a load from the registry that the gateway answers with no
  record, and a load of a gist answered with status 404, take the machine to
  \<open>source_error\<close>, send the error message to the notification actor and delete the \<open>id\<close> and
  \<open>gist\<close> parameters from the query string (afterwards \<open>get\<close> finds neither); any other
  failure of the load takes the machine to \<open>source_error\<close> and sends the error to the
  notification actor, and the query string is as it was. A rejected fetch or query, and a
  failure past the 404 check, are such other failures.
\<close>

theorem load_failure:
  assumes "state cfg = loading_content"
  shows "(sourceProvider (ctx cfg) = Some registry
          \<and> gQuery_GetSourceFile gw (sourceID (ctx cfg)) (session cfg) = resolves None \<longrightarrow>
            load P gw cfg =
              cfg\<lparr>state := source_error,
                  window := map_option (\<lambda>queries. queries_delete ''gist'' (queries_delete ''id'' queries))
                              (window cfg),
                  effects := effects cfg @
                    [send_to (notifRef (ctx cfg)) (BROADCAST ''Source not found in Registry'' error)]\<rparr>)
       \<and> (sourceProvider (ctx cfg) = Some gist
          \<and> fetch_gist gw (sourceID (ctx cfg)) = resolves (404, rest) \<longrightarrow>
            load P gw cfg =
              cfg\<lparr>state := source_error,
                  window := map_option (\<lambda>queries. queries_delete ''gist'' (queries_delete ''id'' queries))
                              (window cfg),
                  effects := effects cfg @
                    [send_to (notifRef (ctx cfg)) (BROADCAST ''Gist not found'' error)]\<rparr>)
       \<and> (\<forall>queries. window cfg = Some queries \<longrightarrow>
            queries_get (queries_delete ''gist'' (queries_delete ''id'' queries)) ''id'' = None
          \<and> queries_get (queries_delete ''gist'' (queries_delete ''id'' queries)) ''gist'' = None)
       \<and> (loadSourceContent gw cfg = throws (JsError n m) \<longrightarrow>
            load P gw cfg =
              cfg\<lparr>state := source_error,
                  effects := effects cfg @
                    [send_to (notifRef (ctx cfg)) (BROADCAST (toString (JsError n m)) error)]\<rparr>)
       \<and> ((sourceProvider (ctx cfg) = Some registry
            \<and> gQuery_GetSourceFile gw (sourceID (ctx cfg)) (session cfg) = rejects n m)
          \<or> (sourceProvider (ctx cfg) = Some gist
            \<and> (fetch_gist gw (sourceID (ctx cfg)) = rejects n m
               \<or> (\<exists>status. status \<noteq> 404
                    \<and> fetch_gist gw (sourceID (ctx cfg)) = resolves (status, rejects n m)))) \<longrightarrow>
            loadSourceContent gw cfg = throws (JsError n m))"
  using assms
  by (auto simp: load_def loadSourceContent_def step_load_error queries_get_delete)

text \<open>
  The registry knows no \<open>abc123\<close>: of the parameters \<open>id\<close>, \<open>theme\<close> and \<open>gist\<close> only \<open>theme\<close>
  is left. The same load failing with \<open>TypeError: Failed to fetch\<close> leaves all three.
\<close>

theorem load_failure_witness:
  "state (example_loading) = loading_content
   \<and> sourceProvider (ctx (example_loading)) = Some registry
   \<and> gQuery_GetSourceFile example_gateway (sourceID (ctx (example_loading)))
        (session (example_loading)) = resolves None
   \<and> state (load example_ssr_params example_gateway (example_loading)) = source_error
   \<and> effects (load example_ssr_params example_gateway (example_loading))
       = [send_to (Some notifMachine) (BROADCAST ''Source not found in Registry'' error)]
   \<and> window (load example_ssr_params example_gateway (example_loading))
       = Some [(''theme'', ''dark'')]
   \<and> state (load example_ssr_params
        (example_gateway\<lparr>gQuery_GetSourceFile := (\<lambda>i t. rejects ''TypeError'' ''Failed to fetch'')\<rparr>)
        (example_loading)) = source_error
   \<and> effects (load example_ssr_params
        (example_gateway\<lparr>gQuery_GetSourceFile := (\<lambda>i t. rejects ''TypeError'' ''Failed to fetch'')\<rparr>)
        (example_loading))
       = [send_to (Some notifMachine) (BROADCAST ''TypeError: Failed to fetch'' error)]
   \<and> window (load example_ssr_params
        (example_gateway\<lparr>gQuery_GetSourceFile := (\<lambda>i t. rejects ''TypeError'' ''Failed to fetch'')\<rparr>)
        (example_loading))
       = Some [(''id'', ''abc123''), (''theme'', ''dark''), (''gist'', ''g1'')]"
proof -
  let ?c = "example_loading"
  let ?gw = "example_gateway\<lparr>gQuery_GetSourceFile := (\<lambda>i t. rejects ''TypeError'' ''Failed to fetch'')\<rparr>"
  have h: "state ?c = loading_content"
    by (simp add: example_defs)
  have p: "sourceProvider (ctx ?c) = Some registry"
      "gQuery_GetSourceFile example_gateway (sourceID (ctx ?c)) (session ?c) = resolves None"
      "gQuery_GetSourceFile ?gw (sourceID (ctx ?c)) (session ?c)
         = rejects ''TypeError'' ''Failed to fetch''"
    by (simp_all add: example_defs)
  have v: "effects ?c = []" "notifRef (ctx ?c) = Some notifMachine"
      "window ?c = Some [(''id'', ''abc123''), (''theme'', ''dark''), (''gist'', ''g1'')]"
    by (simp_all add: example_defs)
  from load_failure [OF h, where gw = example_gateway and P = example_ssr_params] p(1,2)
  have nf: "load example_ssr_params example_gateway ?c =
      ?c\<lparr>state := source_error,
          window := map_option (\<lambda>queries. queries_delete ''gist'' (queries_delete ''id'' queries))
                      (window ?c),
          effects := effects ?c @
            [send_to (notifRef (ctx ?c)) (BROADCAST ''Source not found in Registry'' error)]\<rparr>"
    by blast
  from load_failure [OF h, where gw = ?gw and n = "''TypeError''" and m = "''Failed to fetch''"
      and P = example_ssr_params] p(1,3)
  have tf: "load example_ssr_params ?gw ?c =
      ?c\<lparr>state := source_error,
          effects := effects ?c @
            [send_to (notifRef (ctx ?c))
               (BROADCAST (toString (JsError ''TypeError'' ''Failed to fetch'')) error)]\<rparr>"
    by blast
  show ?thesis
    using h p(1,2) by (simp add: nf tf v queries_delete_def)
qed

text \<open>
  C4. A \<open>SAVE\<close> received while no session exists, in \<open>user_owns_this_source\<close>, in
  \<open>user_does_not_own_this_source\<close> and in \<open>no_source\<close>, changes nothing but the calls made:
  the state and the whole context (\<open>sourceID\<close>, \<open>sourceProvider\<close> and \<open>sourceRawContent\<close> with
  it) are as before, and exactly one \<open>LOGGED_OUT_USER_ATTEMPTED_RESTRICTED_ACTION\<close> is sent
  to the parent.
\<close>

theorem unauthenticated_save:
  assumes "session cfg = None"
    and "state cfg = user_owns_this_source \<or> state cfg = user_does_not_own_this_source
         \<or> in_no_source cfg"
  shows "step P cfg SAVE =
           cfg\<lparr>effects := effects cfg @ [sendParent ''LOGGED_OUT_USER_ATTEMPTED_RESTRICTED_ACTION'']\<rparr>
       \<and> state (step P cfg SAVE) = state cfg
       \<and> ctx (step P cfg SAVE) = ctx cfg
       \<and> sourceID (ctx (step P cfg SAVE)) = sourceID (ctx cfg)
       \<and> sourceProvider (ctx (step P cfg SAVE)) = sourceProvider (ctx cfg)
       \<and> sourceRawContent (ctx (step P cfg SAVE)) = sourceRawContent (ctx cfg)
       \<and> effects (step P cfg SAVE) =
           effects cfg @ [sendParent ''LOGGED_OUT_USER_ATTEMPTED_RESTRICTED_ACTION'']"
proof -
  from assms have "step P cfg SAVE =
      cfg\<lparr>effects := effects cfg @ [sendParent ''LOGGED_OUT_USER_ATTEMPTED_RESTRICTED_ACTION'']\<rparr>"
    by (auto simp: in_no_source_def node_defs isLoggedIn_def action_defs)
  then show ?thesis by simp
qed

theorem unauthenticated_save_witness:
  "session (example_owner None) = None
   \<and> state (example_owner None) = user_owns_this_source
   \<and> state (step example_ssr_params (example_owner None) SAVE)
       = user_owns_this_source
   \<and> ctx (step example_ssr_params (example_owner None) SAVE)
       = ctx (example_owner None)
   \<and> effects (step example_ssr_params (example_owner None) SAVE)
       = [sendParent ''LOGGED_OUT_USER_ATTEMPTED_RESTRICTED_ACTION'']"
proof -
  have h: "session (example_owner None) = None"
      "state (example_owner None) = user_owns_this_source"
      "effects (example_owner None) = []"
    by (simp_all add: example_defs)
  from h(2) have h': "state (example_owner None) = user_owns_this_source
      \<or> state (example_owner None) = user_does_not_own_this_source
      \<or> in_no_source (example_owner None)"
    by simp
  show ?thesis
    using h unauthenticated_save [OF h(1) h', where P = example_ssr_params] by simp
qed

text \<open>
  C6. When \<open>createSourceFile\<close> resolves with a record in \<open>creating.pendingSave\<close>, the machine
  removes the local cache entry stored under the \<open>sourceID\<close> it had before, assigns the
  record's \<open>id\<close> to \<open>sourceID\<close>, the record to \<open>sourceRegistryData\<close> and \<open>registry\<close> to
  \<open>sourceProvider\<close>, replaces the URL with \<open>/\<close> followed by the new \<open>sourceID\<close>, sends the
  notification actor a success message, in this order, and is then in
  \<open>with_source.source_loaded.user_owns_this_source\<close>.
\<close>

theorem create_source_file_done:
  assumes "state cfg = pendingSave"
  shows "state (step P cfg (done_invoke_createSourceFile (Some r))) = user_owns_this_source
       \<and> effects (step P cfg (done_invoke_createSourceFile (Some r))) =
           effects cfg @
             [call_removeSourceRawContent (sourceID (ctx cfg)),
              call_routerReplace (''/'' @ file_id r),
              send_to (notifRef (ctx cfg)) (BROADCAST ''New file saved successfully!'' success)]
       \<and> localCache (step P cfg (done_invoke_createSourceFile (Some r))) =
           (localCache cfg)(sourceID (ctx cfg) := None)
       \<and> sourceID (ctx (step P cfg (done_invoke_createSourceFile (Some r)))) = Some (file_id r)
       \<and> sourceProvider (ctx (step P cfg (done_invoke_createSourceFile (Some r)))) = Some registry
       \<and> sourceRegistryData (ctx (step P cfg (done_invoke_createSourceFile (Some r)))) = Some r"
  using assms
  by (simp add: node_defs source_loaded_at_frame source_loaded_effects action_defs
      clearLocalStorageEntryForCurrentSource_def removeSourceRawContent_def
      updateURLWithMachineID_def)

theorem create_source_file_done_witness:
  "state example_unsaved = pendingSave
   \<and> localCache example_unsaved None = Some \<lparr>entry_content = ''x'', entry_updatedAt = 1\<rparr>
   \<and> state (step example_params example_unsaved (done_invoke_createSourceFile (Some example_file)))
       = user_owns_this_source
   \<and> effects (step example_params example_unsaved (done_invoke_createSourceFile (Some example_file)))
       = [call_removeSourceRawContent None, call_routerReplace ''/abc123'',
          send_to (Some notifMachine) (BROADCAST ''New file saved successfully!'' success)]
   \<and> localCache (step example_params example_unsaved
        (done_invoke_createSourceFile (Some example_file))) None = None
   \<and> sourceID (ctx (step example_params example_unsaved
        (done_invoke_createSourceFile (Some example_file)))) = Some ''abc123''"
proof -
  have h: "state example_unsaved = pendingSave"
    by (simp add: example_defs)
  show ?thesis
    using h create_source_file_done [OF h, where P = example_params and r = example_file]
    by (simp add: example_defs)
qed

text \<open>
  C7, amended. Started on the client side on a URL whose \<open>id\<close> parameter is non-empty (such
  as \<open>?id=abc123\<close>) and with no server-supplied data, the machine takes the \<open>redirecting\<close>
  branch of \<open>checking_if_on_legacy_url\<close>, calls \<open>redirectToNewUrlFromLegacyUrl\<close> once and stays
  in \<open>redirecting\<close> whatever events follow, with \<open>sourceID\<close> and \<open>sourceProvider\<close> null. A
  machine started with server-supplied data whose \<open>id\<close> is that of the parameter does not
  redirect: it is in \<open>with_source.loading_content\<close>, invoking \<open>loadSourceContent\<close>, with
  \<open>sourceProvider = registry\<close> and that \<open>sourceID\<close>.
\<close>

theorem legacy_url_redirect:
  assumes "queries_get queries ''id'' = Some i" and "i \<noteq> []"
  shows "(data P = None \<longrightarrow>
            state (run P (start P sess (Some queries) c) es) = redirecting
          \<and> effects (run P (start P sess (Some queries) c) es) = [call_redirectToNewUrlFromLegacyUrl]
          \<and> sourceID (ctx (run P (start P sess (Some queries) c) es)) = None
          \<and> sourceProvider (ctx (run P (start P sess (Some queries) c) es)) = None)
       \<and> (\<forall>d. data P = Some d \<and> data_id d = i \<longrightarrow>
            state (start P sess w c) = loading_content
          \<and> effects (start P sess w c) = []
          \<and> sourceID (ctx (start P sess w c)) = Some i
          \<and> sourceProvider (ctx (start P sess w c)) = Some registry
          \<and> invoked P (state (start P sess w c)) = [''loadSourceContent''])"
proof -
  have a: "data P = None \<Longrightarrow>
            state (run P (start P sess (Some queries) c) es) = redirecting
          \<and> effects (run P (start P sess (Some queries) c) es) = [call_redirectToNewUrlFromLegacyUrl]
          \<and> sourceID (ctx (run P (start P sess (Some queries) c) es)) = None
          \<and> sourceProvider (ctx (run P (start P sess (Some queries) c) es)) = None"
  proof -
    assume d: "data P = None"
    note s = start_legacy [OF assms d, of sess c]
    from s have "state (start P sess (Some queries) c) = redirecting" by simp
    from run_redirecting [OF this, of P es] s show ?thesis by simp
  qed
  have b: "\<And>d. data P = Some d \<and> data_id d = i \<Longrightarrow>
            state (start P sess w c) = loading_content
          \<and> effects (start P sess w c) = []
          \<and> sourceID (ctx (start P sess w c)) = Some i
          \<and> sourceProvider (ctx (start P sess w c)) = Some registry
          \<and> invoked P (state (start P sess w c)) = [''loadSourceContent'']"
    using start_with_data [OF _ _ assms(2), of P _ sess w c]
    by (auto simp: invoked_def)
  from a b show ?thesis by blast
qed

theorem legacy_url_redirect_witness:
  "queries_get [(''id'', ''abc123'')] ''id'' = Some ''abc123''
   \<and> data example_params = None
   \<and> state (run example_params example_legacy_start
        [LOGGED_IN_USER_ID_UPDATED (Some ''u''), LOADED_FROM_REGISTRY (Some example_file), SAVE])
       = redirecting
   \<and> effects (run example_params example_legacy_start
        [LOGGED_IN_USER_ID_UPDATED (Some ''u''), LOADED_FROM_REGISTRY (Some example_file), SAVE])
       = [call_redirectToNewUrlFromLegacyUrl]
   \<and> data example_ssr_params = Some \<lparr>data_id = ''abc123'', data_text = ''x''\<rparr>
   \<and> state (start example_ssr_params None (Some []) (\<lambda>k. None)) = loading_content
   \<and> sourceID (ctx (start example_ssr_params None (Some []) (\<lambda>k. None))) = Some ''abc123''
   \<and> sourceProvider (ctx (start example_ssr_params None (Some []) (\<lambda>k. None))) = Some registry"
proof -
  have h: "queries_get [(''id'', ''abc123'')] ''id'' = Some ''abc123''" "''abc123'' \<noteq> []"
    by (simp_all add: queries_get_def)
  have d: "data example_params = None"
      "data example_ssr_params = Some \<lparr>data_id = ''abc123'', data_text = ''x''\<rparr>"
    by (simp_all add: example_defs)
  show ?thesis
    using h(1) d
      legacy_url_redirect [OF h, where P = example_params and sess = None and c = "\<lambda>k. None"
        and es = "[LOGGED_IN_USER_ID_UPDATED (Some ''u''), LOADED_FROM_REGISTRY (Some example_file),
                   SAVE]"]
      legacy_url_redirect [OF h, where P = example_ssr_params and sess = None and w = "Some []"
        and c = "\<lambda>k. None"]
    by (simp add: example_legacy_start_def)
qed

text \<open>
  C7 as stated fails. The machine started on \<open>?id=abc123\<close> on the client side with no
  server-supplied data is in \<open>redirecting\<close>, not in \<open>with_source.loading_content\<close>; its
  \<open>sourceID\<close> is not \<open>abc123\<close> and its \<open>sourceProvider\<close> is not \<open>registry\<close>; a
  \<open>LOADED_FROM_REGISTRY\<close> event leaves it in \<open>redirecting\<close>.
\<close>

theorem legacy_url_redirect_counterexample:
  "state example_legacy_start = redirecting
   \<and> state example_legacy_start \<noteq> loading_content
   \<and> sourceID (ctx example_legacy_start) \<noteq> Some ''abc123''
   \<and> sourceProvider (ctx example_legacy_start) \<noteq> Some registry
   \<and> state (step example_params example_legacy_start (LOADED_FROM_REGISTRY (Some example_file)))
       = redirecting"
  by (simp add: example_defs start_defs node_defs action_defs)

text \<open>
  C9. \<open>getInvocations\<close> returns the two invocations \<open>codeCacheMachine\<close> and
  \<open>confirmBeforeLeavingMachine\<close> when \<open>isEmbedded\<close> is false and no list (\<open>undefined\<close>: the
  \<open>else\<close> branch only evaluates an empty array) when it is true. In \<open>source_loaded\<close> and in
  \<open>no_source\<close> these two machines are invoked, and \<open>CODE_UPDATED\<close> is forwarded to both,
  exactly when \<open>isEmbedded\<close> is false; in the other states \<open>CODE_UPDATED\<close> does nothing; and
  with \<open>isEmbedded\<close> true no event is ever forwarded.
\<close>

theorem forwarding_iff_not_embedded:
  "getInvocations False =
     Some [(''cacheCodeChangesMachine'', ''codeCacheMachine''),
           (''confirmBeforeLeavingMachine'', ''confirmBeforeLeavingMachine'')]
   \<and> getInvocations True = None
   \<and> (in_source_loaded cfg \<or> in_no_source cfg \<longrightarrow>
        invoked P (state cfg) =
          (if isEmbedded P then [] else [''codeCacheMachine'', ''confirmBeforeLeavingMachine''])
      \<and> effects (step P cfg (CODE_UPDATED c s)) =
          effects cfg @
            (if isEmbedded P then []
             else [forwardTo ''codeCacheMachine'' (CODE_UPDATED c s),
                   forwardTo ''confirmBeforeLeavingMachine'' (CODE_UPDATED c s)]))
   \<and> (\<not> (in_source_loaded cfg \<or> in_no_source cfg) \<longrightarrow> step P cfg (CODE_UPDATED c s) = cfg)
   \<and> (isEmbedded P \<longrightarrow>
        filter is_forwardTo (effects (step P cfg e)) = filter is_forwardTo (effects cfg))"
proof -
  have inv: "in_source_loaded cfg \<or> in_no_source cfg \<Longrightarrow>
      invoked P (state cfg) =
        (if isEmbedded P then [] else [''codeCacheMachine'', ''confirmBeforeLeavingMachine''])"
    by (auto simp: in_source_loaded_def in_no_source_def invoked_def getInvocations_def)
  show ?thesis
    using inv embedded_never_forwards [of P cfg e] code_updated_elsewhere [of cfg P c s]
    by (simp add: getInvocations_def step_code_updated)
qed

theorem forwarding_iff_not_embedded_witness:
  "in_source_loaded (example_owner None)
   \<and> \<not> isEmbedded example_ssr_params
   \<and> effects (step example_ssr_params (example_owner None)
        (CODE_UPDATED ''a'' (Some ''abc123'')))
       = [forwardTo ''codeCacheMachine'' (CODE_UPDATED ''a'' (Some ''abc123'')),
          forwardTo ''confirmBeforeLeavingMachine'' (CODE_UPDATED ''a'' (Some ''abc123''))]
   \<and> isEmbedded (example_ssr_params\<lparr>isEmbedded := True\<rparr>)
   \<and> effects (step (example_ssr_params\<lparr>isEmbedded := True\<rparr>)
        (example_owner None) (CODE_UPDATED ''a'' (Some ''abc123''))) = []
   \<and> invoked (example_ssr_params\<lparr>isEmbedded := True\<rparr>) user_owns_this_source = []"
proof -
  let ?c = "example_owner None"
  have h: "in_source_loaded ?c" "\<not> isEmbedded example_ssr_params"
      "isEmbedded (example_ssr_params\<lparr>isEmbedded := True\<rparr>)" "effects ?c = []"
      "state ?c = user_owns_this_source"
    by (simp_all add: in_source_loaded_def example_defs)
  show ?thesis
    using h
      forwarding_iff_not_embedded [where cfg = ?c and P = example_ssr_params and c = "''a''"
        and s = "Some ''abc123''" and e = SAVE]
      forwarding_iff_not_embedded [where cfg = ?c
        and P = "example_ssr_params\<lparr>isEmbedded := True\<rparr>" and c = "''a''"
        and s = "Some ''abc123''" and e = SAVE]
    by simp
qed

text \<open>
  C10, amended. On the client side, for every URL whose query string has a \<open>gist\<close>
  parameter with a non-empty first value, \<open>parseQueries\<close> sets \<open>sourceProvider = gist\<close> and
  \<open>sourceID\<close> to that value, whether or not there is an \<open>id\<close> parameter: without the \<open>id\<close>
  parameters the context it leaves is the same.
\<close>

theorem parseQueries_gist_first:
  assumes "window cfg = Some queries"
    and "queries_get queries ''gist'' = Some g" and "g \<noteq> []"
  shows "sourceProvider (ctx (parseQueries e cfg)) = Some gist
       \<and> sourceID (ctx (parseQueries e cfg)) = Some g
       \<and> ctx (parseQueries e (cfg\<lparr>window := Some (queries_delete ''id'' queries)\<rparr>))
           = ctx (parseQueries e cfg)"
  using assms queries_get_delete [of "''id''" queries "''gist''"]
  by (simp add: parseQueries_def Boolean_def assign_def)

theorem parseQueries_gist_first_witness:
  "window (example_both ''g1'') = Some [(''gist'', ''g1''), (''id'', ''abc123'')]
   \<and> queries_get [(''gist'', ''g1''), (''id'', ''abc123'')] ''gist'' = Some ''g1''
   \<and> queries_get [(''gist'', ''g1''), (''id'', ''abc123'')] ''id'' = Some ''abc123''
   \<and> sourceProvider (ctx (parseQueries xstate_init (example_both ''g1''))) = Some gist
   \<and> sourceID (ctx (parseQueries xstate_init (example_both ''g1''))) = Some ''g1''"
proof -
  have h: "window (example_both ''g1'') = Some [(''gist'', ''g1''), (''id'', ''abc123'')]"
      "queries_get [(''gist'', ''g1''), (''id'', ''abc123'')] ''gist'' = Some ''g1''"
      "''g1'' \<noteq> []"
    by (simp_all add: example_both_def queries_get_def)
  show ?thesis
    using h parseQueries_gist_first [OF h, where e = xstate_init] by (simp add: queries_get_def)
qed

text \<open>
  C10 as stated fails. The query string \<open>?gist=&id=abc123\<close> has a \<open>gist\<close> parameter and an
  \<open>id\<close> parameter; the value of \<open>gist\<close> is empty, hence falsy, and \<open>parseQueries\<close> takes the
  \<open>id\<close> branch: \<open>sourceProvider = registry\<close> and \<open>sourceID = abc123\<close>.
\<close>

theorem parseQueries_gist_first_counterexample:
  "window (example_both '''') = Some [(''gist'', ''''), (''id'', ''abc123'')]
   \<and> queries_get [(''gist'', ''''), (''id'', ''abc123'')] ''gist'' = Some ''''
   \<and> queries_get [(''gist'', ''''), (''id'', ''abc123'')] ''id'' = Some ''abc123''
   \<and> sourceProvider (ctx (parseQueries xstate_init (example_both ''''))) = Some registry
   \<and> sourceID (ctx (parseQueries xstate_init (example_both ''''))) = Some ''abc123''"
  by (simp add: example_both_def queries_get_def parseQueries_def Boolean_def assign_def
      initialContext_def)

section \<open>The claims about the drag machine\<close>

lemma dragging_drag_again:
  assumes "drag_value c = locked dragging"
  shows "drag_step c (DRAG p) =
           c\<lparr>drag_ctx := (drag_ctx c)
                \<lparr>dragPoint := p,
                 dx := point_x (dragPoint (drag_ctx c)) - point_x p,
                 dy := point_y (dragPoint (drag_ctx c)) - point_y p\<rparr>\<rparr>"
  using assms by (simp add: drag_step_def dragging_entry_def)

text \<open>
  C5. In \<open>locked.idle\<close>, \<open>GRAB\<close> at (10,10) sets \<open>startPoint\<close> and \<open>dragPoint\<close> to (10,10) and
  enters \<open>grabbed\<close>; a following \<open>DRAG\<close> to (15,12) enters \<open>dragging\<close> with \<open>dx = 10 - 15 = -5\<close>
  and \<open>dy = 10 - 12 = -2\<close>, the delta reported to the canvas; every further \<open>DRAG\<close> enters
  \<open>dragging\<close> again with the delta taken against the stored \<open>dragPoint\<close>; \<open>UNGRAB\<close> returns
  to \<open>idle\<close>.
\<close>

theorem drag_grab_drag_ungrab:
  assumes "drag_value cfg = locked idle"
  shows "let g = drag_step cfg (GRAB \<lparr>point_x = 10, point_y = 10\<rparr>);
             d = drag_step g (DRAG \<lparr>point_x = 15, point_y = 12\<rparr>)
         in drag_value g = locked grabbed
          \<and> startPoint (drag_ctx g) = \<lparr>point_x = 10, point_y = 10\<rparr>
          \<and> dragPoint (drag_ctx g) = \<lparr>point_x = 10, point_y = 10\<rparr>
          \<and> drag_value d = locked dragging
          \<and> dx (drag_ctx d) = - 5 \<and> dy (drag_ctx d) = - 2
          \<and> dragPoint (drag_ctx d) = \<lparr>point_x = 15, point_y = 12\<rparr>
          \<and> reported_pan d = Some (- 5, - 2)
          \<and> (\<forall>p. drag_value (drag_step d (DRAG p)) = locked dragging
                 \<and> dx (drag_ctx (drag_step d (DRAG p))) = point_x (dragPoint (drag_ctx d)) - point_x p
                 \<and> dy (drag_ctx (drag_step d (DRAG p))) = point_y (dragPoint (drag_ctx d)) - point_y p
                 \<and> dragPoint (drag_ctx (drag_step d (DRAG p))) = p)
          \<and> drag_value (drag_step d UNGRAB) = locked idle
          \<and> drag_value (drag_step g UNGRAB) = locked idle"
  using assms
  by (simp add: drag_step_def assign_grab_def dragging_entry_def reported_pan_def Let_def)

theorem drag_grab_drag_ungrab_witness:
  "drag_value example_locked = locked idle
   \<and> reported_pan
        (drag_run example_locked
           [GRAB \<lparr>point_x = 10, point_y = 10\<rparr>, DRAG \<lparr>point_x = 15, point_y = 12\<rparr>])
        = Some (- 5, - 2)
   \<and> reported_pan
        (drag_run example_locked
           [GRAB \<lparr>point_x = 10, point_y = 10\<rparr>, DRAG \<lparr>point_x = 15, point_y = 12\<rparr>,
            DRAG \<lparr>point_x = 18, point_y = 9\<rparr>])
        = Some (- 3, 3)
   \<and> drag_value
        (drag_run example_locked
           [GRAB \<lparr>point_x = 10, point_y = 10\<rparr>, DRAG \<lparr>point_x = 15, point_y = 12\<rparr>, UNGRAB])
        = locked idle"
proof -
  have idle: "drag_value example_locked = locked idle"
    by (simp add: example_locked_def drag_start_def checking_embedded_mode_def
        dragModel_initialContext_def drag_step_def disableTextSelection_def)
  show ?thesis
    using idle drag_grab_drag_ungrab [OF idle]
    by (simp add: drag_run_def Let_def drag_step_def dragging_entry_def reported_pan_def)
qed

lemma keydown_on_text_input_ignored:
  assumes "isTextInputLikeElement (target e)"
  shows "keydownListener isTextInputLikeElement e = (False, None)
       \<and> keydown isTextInputLikeElement cfg e = cfg"
  using assms by (simp add: keydownListener_def keydown_def)

lemma keyup_space_releases:
  assumes "drag_value cfg = locked s" and "code e = ''Space''"
  shows "keyupListener e = (True, Some RELEASE)
       \<and> drag_value (keyup cfg e) = released"
  using assms
  by (cases s) (simp_all add: keyupListener_def keyup_def drag_step_def enableTextSelection_def)

text \<open>
  C8. The keyboard listeners are to ignore every event whose target is a text-input-like
  element. The keydown listener does: a Space keydown on an \<open>INPUT\<close> leaves \<open>released\<close> as it
  is. The keyup listener does not look at the target: a Space keyup on an \<open>INPUT\<close> while
  \<open>locked\<close> sends \<open>RELEASE\<close>, and the machine is in \<open>released\<close>.
\<close>

theorem keyup_on_text_input_releases:
  "example_isTextInputLikeElement ''INPUT''
   \<and> drag_value example_locked = locked idle
   \<and> keydown example_isTextInputLikeElement (drag_start None ''unset'')
        \<lparr>target = ''INPUT'', code = ''Space''\<rparr> = drag_start None ''unset''
   \<and> snd (keyupListener \<lparr>target = ''INPUT'', code = ''Space''\<rparr>) = Some RELEASE
   \<and> drag_value (keyup example_locked \<lparr>target = ''INPUT'', code = ''Space''\<rparr>) = released"
  by (simp add: example_isTextInputLikeElement_def example_locked_def drag_start_def
      checking_embedded_mode_def dragModel_initialContext_def drag_step_def
      disableTextSelection_def enableTextSelection_def keydown_def keydownListener_def
      keyup_def keyupListener_def)

end
